theory Spec2Isabelle
  imports Complex_Main "HOL-Library.Char_ord" "HOL-Library.List_Lexorder"
begin

section \<open>Python and pandas values\<close>

text \<open>
  The exceptions the module can raise. None of them is caught anywhere in the source, so
  each one ends the call; a function that can raise returns \<open>error + 'a\<close>.
\<close>

datatype error = KeyError | IndexError | ValueError | TypeError | OverflowError | ZeroDivisionError

text \<open>
  A float is a finite number, an infinity or NaN. A finite float is given by its value, a
  real number; signed zeros are not distinguished.
\<close>

datatype npfloat = Fin real | PosInf | NegInf | NaN

text \<open>
  Float arithmetic is the exact operation followed by rounding to the nearest double
  (IEEE 754 binary64): 53 significant bits, exponents from -1022 to 1023, ties to the even
  significand, and an infinity when the rounded value reaches \<open>2^1024\<close>. Below
  \<open>2^-1022\<close> the spacing of the doubles stays \<open>2^-1074\<close>.
\<close>

definition round_half_even :: "real \<Rightarrow> int" where
  "round_half_even q =
     (let f = \<lfloor>q\<rfloor> in
      if q - of_int f < 1 / 2 then f
      else if 1 / 2 < q - of_int f then f + 1
      else if even f then f else f + 1)"

definition round_double :: "real \<Rightarrow> npfloat" where
  "round_double r =
     (if r = 0 then Fin 0
      else
        let e = max \<lfloor>log 2 \<bar>r\<bar>\<rfloor> (- 1022);
            ulp = 2 powi (e - 52);
            v = of_int (round_half_even (\<bar>r\<bar> / ulp)) * ulp
        in if 2 ^ 1024 \<le> v then (if 0 < r then PosInf else NegInf)
           else Fin (if 0 < r then v else - v))"

text \<open>
  A number that meets a float in arithmetic is converted to float first: an int beyond
  \<open>2^53\<close> is rounded, a float is left as it is (rounding a double gives the double).
\<close>

fun py_float :: "npfloat \<Rightarrow> npfloat" where
  "py_float (Fin a) = round_double a"
| "py_float x = x"

text \<open>
  The floats that the literals \<open>0.7\<close>, \<open>1.4\<close>, \<open>0.97\<close> and \<open>1.04\<close> of the source denote
  (the doubles nearest to the decimal numbers).
\<close>

definition lit_0_7 :: real where
  "lit_0_7 = 3152519739159347 / 4503599627370496"

definition lit_1_4 :: real where
  "lit_1_4 = 3152519739159347 / 2251799813685248"

definition lit_0_97 :: real where
  "lit_0_97 = 4368491638549381 / 4503599627370496"

definition lit_1_04 :: real where
  "lit_1_04 = 1170935903116329 / 1125899906842624"

text \<open>The comparison \<open>a < b\<close> of two floats: every comparison with NaN is false.\<close>

fun np_lt :: "npfloat \<Rightarrow> npfloat \<Rightarrow> bool" where
  "np_lt (Fin a) (Fin b) = (a < b)"
| "np_lt (Fin a) PosInf = True"
| "np_lt NegInf (Fin b) = True"
| "np_lt NegInf PosInf = True"
| "np_lt _ _ = False"

text \<open>The product of a float and a finite float \<open>c\<close>.\<close>

fun np_mul :: "npfloat \<Rightarrow> real \<Rightarrow> npfloat" where
  "np_mul (Fin a) c = round_double (a * c)"
| "np_mul PosInf c = (if 0 < c then PosInf else if c < 0 then NegInf else NaN)"
| "np_mul NegInf c = (if 0 < c then NegInf else if c < 0 then PosInf else NaN)"
| "np_mul NaN c = NaN"

text \<open>
  \<open>np.log10\<close> on one element: the logarithm of zero is \<open>-inf\<close> and that of a negative
  number is NaN. numpy reports both with a warning and raises nothing. The logarithm of a
  positive number is given exactly here and rounded where it enters the arithmetic
  (\<open>py_float\<close> in \<open>setRange\<close>), so it stands for the correctly rounded logarithm.
\<close>

fun np_log10 :: "npfloat \<Rightarrow> npfloat" where
  "np_log10 (Fin a) = (if 0 < a then Fin (log 10 a) else if a = 0 then NegInf else NaN)"
| "np_log10 PosInf = PosInf"
| "np_log10 NegInf = NaN"
| "np_log10 NaN = NaN"

text \<open>
  The builtins \<open>min\<close> and \<open>max\<close> over a sequence of floats: ValueError on the empty
  sequence; otherwise the first element is kept until a later one compares smaller
  (greater).
\<close>

definition py_min :: "npfloat list \<Rightarrow> error + npfloat" where
  "py_min xs = (case xs of [] \<Rightarrow> Inl ValueError
     | x # r \<Rightarrow> Inr (fold (\<lambda>item cur. if np_lt item cur then item else cur) r x))"

definition py_max :: "npfloat list \<Rightarrow> error + npfloat" where
  "py_max xs = (case xs of [] \<Rightarrow> Inl ValueError
     | x # r \<Rightarrow> Inr (fold (\<lambda>item cur. if np_lt cur item then item else cur) r x))"

text \<open>Sequencing of computations that can raise.\<close>

definition ebind :: "error + 'a \<Rightarrow> ('a \<Rightarrow> error + 'b) \<Rightarrow> error + 'b" where
  "ebind m f = (case m of Inl e \<Rightarrow> Inl e | Inr v \<Rightarrow> f v)"

text \<open>A scalar of a dataset: what iterating a column yields.\<close>

datatype cell = IntC int | FloatC npfloat | StrC string | BoolC bool

text \<open>
  A column of a \<open>DataFrame\<close>, by its dtype: \<open>int64\<close>, \<open>float64\<close>, \<open>bool\<close>, \<open>object\<close>
  (text) and \<open>category\<close> (with text categories). A column is homogeneous.
\<close>

datatype series = IntCol "int list" | FloatCol "npfloat list" | BoolCol "bool list"
  | ObjCol "string list" | CatCol "string list"

fun dtype_name :: "series \<Rightarrow> string" where
  "dtype_name (IntCol _) = ''int64''"
| "dtype_name (FloatCol _) = ''float64''"
| "dtype_name (BoolCol _) = ''bool''"
| "dtype_name (ObjCol _) = ''object''"
| "dtype_name (CatCol _) = ''category''"

fun cells :: "series \<Rightarrow> cell list" where
  "cells (IntCol xs) = map IntC xs"
| "cells (FloatCol xs) = map FloatC xs"
| "cells (BoolCol xs) = map BoolC xs"
| "cells (ObjCol xs) = map StrC xs"
| "cells (CatCol xs) = map StrC xs"

text \<open>
  The numbers of a numeric column (a boolean counts as 0 or 1), and nothing for a column
  of text.
\<close>

fun numbers :: "series \<Rightarrow> npfloat list option" where
  "numbers (IntCol xs) = Some (map (\<lambda>i. Fin (of_int i)) xs)"
| "numbers (FloatCol xs) = Some xs"
| "numbers (BoolCol xs) = Some (map (\<lambda>b. Fin (if b then 1 else 0)) xs)"
| "numbers (ObjCol xs) = None"
| "numbers (CatCol xs) = None"


text \<open>
  Two library functions are parameters of the model, because their results depend on the
  binary representation of floats and on Python's grammar of integer literals:
  \<open>float_repr\<close> is \<open>str\<close> of a finite float, \<open>int_of_str\<close> is \<open>int\<close> of a string
  (\<open>None\<close> where Python raises ValueError).
\<close>

record pylib =
  float_repr :: "real \<Rightarrow> string"
  int_of_str :: "string \<Rightarrow> int option"

text \<open>\<open>str\<close> of an integer: its decimal digits, with a minus sign when negative.\<close>

fun str_nat :: "nat \<Rightarrow> string" where
  "str_nat n = (if n < 10 then [''0123456789'' ! n]
                else str_nat (n div 10) @ [''0123456789'' ! (n mod 10)])"

declare str_nat.simps [simp del]

definition str_int :: "int \<Rightarrow> string" where
  "str_int i = (if i < 0 then ''-'' @ str_nat (nat (- i)) else str_nat (nat i))"

text \<open>\<open>str(v)\<close>, which is also what \<open>'{}'.format(v)\<close> inserts.\<close>

fun py_str :: "pylib \<Rightarrow> cell \<Rightarrow> string" where
  "py_str L (IntC i) = str_int i"
| "py_str L (StrC s) = s"
| "py_str L (BoolC b) = (if b then ''True'' else ''False'')"
| "py_str L (FloatC (Fin r)) = float_repr L r"
| "py_str L (FloatC PosInf) = ''inf''"
| "py_str L (FloatC NegInf) = ''-inf''"
| "py_str L (FloatC NaN) = ''nan''"

text \<open>\<open>int(v)\<close>: a float is truncated towards zero.\<close>

fun py_int :: "pylib \<Rightarrow> cell \<Rightarrow> error + int" where
  "py_int L (IntC i) = Inr i"
| "py_int L (BoolC b) = Inr (if b then 1 else 0)"
| "py_int L (FloatC (Fin r)) = Inr (if 0 \<le> r then \<lfloor>r\<rfloor> else \<lceil>r\<rceil>)"
| "py_int L (FloatC NaN) = Inl ValueError"
| "py_int L (FloatC _) = Inl OverflowError"
| "py_int L (StrC s) = (case int_of_str L s of None \<Rightarrow> Inl ValueError | Some i \<Rightarrow> Inr i)"

text \<open>The number a cell stands for in a comparison, if it is one.\<close>

fun num_of :: "cell \<Rightarrow> npfloat option" where
  "num_of (IntC i) = Some (Fin (of_int i))"
| "num_of (FloatC f) = Some f"
| "num_of (BoolC b) = Some (Fin (if b then 1 else 0))"
| "num_of (StrC s) = None"

text \<open>\<open>a == b\<close> on scalars: numbers by value (NaN equals nothing), text by content.\<close>

fun cell_eq :: "cell \<Rightarrow> cell \<Rightarrow> bool" where
  "cell_eq (StrC s) (StrC t) = (s = t)"
| "cell_eq a b = (case (num_of a, num_of b) of
      (Some x, Some y) \<Rightarrow> x = y \<and> x \<noteq> NaN
    | _ \<Rightarrow> False)"

text \<open>\<open>a < b\<close> on scalars: text against a number raises TypeError.\<close>

fun cell_lt :: "cell \<Rightarrow> cell \<Rightarrow> error + bool" where
  "cell_lt (StrC s) (StrC t) = Inr (s < t)"
| "cell_lt a b = (case (num_of a, num_of b) of
      (Some x, Some y) \<Rightarrow> Inr (np_lt x y)
    | _ \<Rightarrow> Inl TypeError)"

text \<open>The truth value of a scalar in a condition.\<close>

fun cell_truthy :: "cell \<Rightarrow> bool" where
  "cell_truthy (IntC i) = (i \<noteq> 0)"
| "cell_truthy (FloatC f) = (f \<noteq> Fin 0)"
| "cell_truthy (StrC s) = (s \<noteq> [])"
| "cell_truthy (BoolC b) = b"

text \<open>The builtins \<open>min\<close> and \<open>max\<close> over scalars.\<close>

fun min_from :: "cell \<Rightarrow> cell list \<Rightarrow> error + cell" where
  "min_from cur [] = Inr cur"
| "min_from cur (item # r) =
     ebind (cell_lt item cur) (\<lambda>b. min_from (if b then item else cur) r)"

fun max_from :: "cell \<Rightarrow> cell list \<Rightarrow> error + cell" where
  "max_from cur [] = Inr cur"
| "max_from cur (item # r) =
     ebind (cell_lt cur item) (\<lambda>b. max_from (if b then item else cur) r)"

definition cells_min :: "cell list \<Rightarrow> error + cell" where
  "cells_min xs = (case xs of [] \<Rightarrow> Inl ValueError | x # r \<Rightarrow> min_from x r)"

definition cells_max :: "cell list \<Rightarrow> error + cell" where
  "cells_max xs = (case xs of [] \<Rightarrow> Inl ValueError | x # r \<Rightarrow> max_from x r)"

text \<open>\<open>Series.unique()\<close>: the distinct values in the order of their first appearance.\<close>

definition unique :: "'a list \<Rightarrow> 'a list" where
  "unique xs = rev (remdups (rev xs))"

text \<open>
  A loop that builds a list and stops at the first element whose body raises.
\<close>

fun emap :: "('a \<Rightarrow> error + 'b) \<Rightarrow> 'a list \<Rightarrow> error + 'b list" where
  "emap f [] = Inr []"
| "emap f (x # xs) = ebind (f x) (\<lambda>y. ebind (emap f xs) (\<lambda>ys. Inr (y # ys)))"

section \<open>Datasets\<close>

text \<open>
  A dataset is a list of named columns, all of one length. \<open>dataset[name]\<close> raises
  KeyError when no column has the name.
\<close>

type_synonym dataset = "(string \<times> series) list"

definition get_col :: "dataset \<Rightarrow> string \<Rightarrow> error + series" where
  "get_col dataset name = (case map_of dataset name of None \<Rightarrow> Inl KeyError | Some c \<Rightarrow> Inr c)"

text \<open>Boolean indexing: the entries at the rows where the mask is true, in row order.\<close>

definition select :: "bool list \<Rightarrow> 'a list \<Rightarrow> 'a list" where
  "select msk xs = map snd (filter fst (zip msk xs))"

text \<open>
  An optional column name is used in conditions (\<open>if time_column:\<close>): \<open>None\<close> and the
  empty string both count as absent.
\<close>

fun given :: "string option \<Rightarrow> string option" where
  "given None = None"
| "given (Some s) = (if s = [] then None else Some s)"

section \<open>Key templates\<close>

text \<open>
  A format string is a sequence of literal pieces and \<open>{}\<close> fields. \<open>format\<close> replaces
  the fields by the arguments in order, ignores arguments that are left over and raises
  IndexError when there are too few. The source passes an empty dict as an argument to
  keep a field open (\<open>'{}+{}_grid'.format(year, {})\<close> is \<open>'2000+{}_grid'\<close>): that argument
  is \<open>Hole\<close>. Any other argument is \<open>Lit\<close> of its \<open>str\<close>.
\<close>

datatype piece = Lit string | Hole

type_synonym template = "piece list"

fun format :: "template \<Rightarrow> piece list \<Rightarrow> error + template" where
  "format [] args = Inr []"
| "format (Lit s # t) args = ebind (format t args) (\<lambda>r. Inr (Lit s # r))"
| "format (Hole # t) [] = Inl IndexError"
| "format (Hole # t) (a # args) = ebind (format t args) (\<lambda>r. Inr (a # r))"

fun render :: "template \<Rightarrow> string" where
  "render [] = []"
| "render (Lit s # t) = s @ render t"
| "render (Hole # t) = ''{}'' @ render t"

definition format_str :: "template \<Rightarrow> piece list \<Rightarrow> error + string" where
  "format_str t args = ebind (format t args) (\<lambda>r. Inr (render r))"

text \<open>The three templates of the source.\<close>

definition tmpl1 :: template where
  "tmpl1 = [Hole, Lit ''_grid'']"

definition tmpl2 :: template where
  "tmpl2 = [Hole, Lit ''+'', Hole, Lit ''_grid'']"

definition tmpl3 :: template where
  "tmpl3 = [Hole, Lit ''+'', Hole, Lit ''+'', Hole, Lit ''_grid'']"

section \<open>Grid Builder\<close>

text \<open>
  The grid is a table with one row per entry, a key and a list of values; rows are
  appended in the order of the loops.
\<close>

type_synonym grid = "(string \<times> cell list) list"

text \<open>
  One pass of the innermost loop: for each column name, the key and the values of the
  column at the rows of the mask, kept only when there is at least one value.
\<close>

definition grid_rows :: "dataset \<Rightarrow> bool list \<Rightarrow> (string \<Rightarrow> error + string) \<Rightarrow> string list
    \<Rightarrow> error + grid" where
  "grid_rows dataset msk key column_names =
     ebind (emap (\<lambda>col_name.
              ebind (key col_name) (\<lambda>temp.
              ebind (get_col dataset col_name) (\<lambda>c.
                let vs = select msk (cells c)
                in Inr (if vs \<noteq> [] then [(temp, vs)] else []))))
            column_names)
       (\<lambda>rows. Inr (concat rows))"

definition makeGrid :: "pylib \<Rightarrow> dataset \<Rightarrow> string list \<Rightarrow> string option \<Rightarrow> cell list option
    \<Rightarrow> error + grid" where
  "makeGrid L dataset column_names time_column years =
     (case given time_column of
        Some tc \<Rightarrow>
          ebind (case years of
                   None \<Rightarrow> ebind (get_col dataset tc) (\<lambda>c. Inr (unique (cells c)))
                 | Some ys \<Rightarrow> Inr ys) (\<lambda>ys.
          ebind (emap (\<lambda>year.
                   ebind (get_col dataset tc) (\<lambda>t.
                   ebind (py_int L year) (\<lambda>i.
                     grid_rows dataset (map (\<lambda>c. cell_eq c (IntC i)) (cells t))
                       (\<lambda>col_name. format_str tmpl2 [Lit (py_str L year), Lit col_name])
                       column_names)))
                 ys)
            (\<lambda>rows. Inr (concat rows)))
      | None \<Rightarrow>
          emap (\<lambda>col_name.
                  ebind (get_col dataset col_name) (\<lambda>c. Inr (col_name @ ''_grid'', cells c)))
            column_names)"

definition makeGridWithCategories :: "pylib \<Rightarrow> dataset \<Rightarrow> string list \<Rightarrow> string option \<Rightarrow> string
    \<Rightarrow> cell list option \<Rightarrow> cell list option \<Rightarrow> error + grid" where
  "makeGridWithCategories L dataset column_names time_column category_column years categories =
     ebind (case categories of
              None \<Rightarrow> ebind (get_col dataset category_column) (\<lambda>c. Inr (unique (cells c)))
            | Some cs \<Rightarrow> Inr cs) (\<lambda>cs.
     case given time_column of
       Some tc \<Rightarrow>
         ebind (case years of
                  None \<Rightarrow> ebind (get_col dataset tc) (\<lambda>c. Inr (unique (cells c)))
                | Some ys \<Rightarrow> Inr ys) (\<lambda>ys.
         ebind (emap (\<lambda>year.
                  ebind (emap (\<lambda>category.
                           ebind (get_col dataset tc) (\<lambda>t.
                           ebind (py_int L year) (\<lambda>i.
                           ebind (get_col dataset category_column) (\<lambda>g.
                             grid_rows dataset
                               (map (\<lambda>(a, b). cell_eq a (IntC i) \<and> cell_eq b category)
                                  (zip (cells t) (cells g)))
                               (\<lambda>col_name. format_str tmpl3
                                  [Lit (py_str L year), Lit col_name, Lit (py_str L category)])
                               column_names))))
                         cs)
                    (\<lambda>rows. Inr (concat rows)))
                ys)
           (\<lambda>rows. Inr (concat rows)))
     | None \<Rightarrow>
         ebind (emap (\<lambda>category.
                  ebind (get_col dataset category_column) (\<lambda>g.
                    grid_rows dataset (map (\<lambda>b. cell_eq b category) (cells g))
                      (\<lambda>col_name. format_str tmpl2 [Lit col_name, Lit (py_str L category)])
                      column_names))
                cs)
           (\<lambda>rows. Inr (concat rows)))"

section \<open>Range Calculator\<close>

text \<open>
  \<open>setRange(values, logscale)\<close>. On an empty column \<open>min\<close> raises ValueError; on a
  non-empty column of text the arithmetic raises TypeError.
\<close>

definition setRange :: "series \<Rightarrow> bool \<Rightarrow> error + npfloat list" where
  "setRange values logscale =
     (if cells values = [] then Inl ValueError
      else case numbers values of
        None \<Rightarrow> Inl TypeError
      | Some vs \<Rightarrow>
          if logscale then
            ebind (py_min (map np_log10 vs)) (\<lambda>lo.
            ebind (py_max (map np_log10 vs)) (\<lambda>hi.
              Inr [np_mul (py_float lo) lit_0_97, np_mul (py_float hi) lit_1_04]))
          else
            ebind (py_min vs) (\<lambda>lo.
            ebind (py_max vs) (\<lambda>hi.
              Inr [np_mul (py_float lo) lit_0_7, np_mul (py_float hi) lit_1_4])))"


section \<open>The chart description\<close>

text \<open>
  The values the figure is made of: \<open>None\<close>, a scalar, a list, and a dict with its keys
  in insertion order.
\<close>

datatype pyval = Null | Sc cell | Arr "pyval list" | Obj "(string \<times> pyval) list"

type_synonym dict = "(string \<times> pyval) list"

text \<open>\<open>d[k] = v\<close>: the value of an existing key is replaced in place, a new key is appended.\<close>

fun dict_set :: "dict \<Rightarrow> string \<Rightarrow> pyval \<Rightarrow> dict" where
  "dict_set [] k v = [(k, v)]"
| "dict_set (p # ps) k v = (if fst p = k then (k, v) # ps else p # dict_set ps k v)"

definition dict_keys :: "dict \<Rightarrow> string list" where
  "dict_keys d = map fst d"

text \<open>\<open>d[k1][k2] = v\<close>: KeyError when \<open>k1\<close> is missing, TypeError when \<open>d[k1]\<close> is no dict.\<close>

definition dict_set_in :: "dict \<Rightarrow> string \<Rightarrow> string \<Rightarrow> pyval \<Rightarrow> error + dict" where
  "dict_set_in d k1 k2 v =
     (case map_of d k1 of
        None \<Rightarrow> Inl KeyError
      | Some (Obj inner) \<Rightarrow> Inr (dict_set d k1 (Obj (dict_set inner k2 v)))
      | Some _ \<Rightarrow> Inl TypeError)"

definition str_val :: "string \<Rightarrow> pyval" where
  "str_val s = Sc (StrC s)"

definition int_val :: "int \<Rightarrow> pyval" where
  "int_val i = Sc (IntC i)"

definition bool_val :: "bool \<Rightarrow> pyval" where
  "bool_val b = Sc (BoolC b)"

definition real_val :: "real \<Rightarrow> pyval" where
  "real_val r = Sc (FloatC (Fin r))"

definition opt_str :: "string option \<Rightarrow> pyval" where
  "opt_str s = (case s of None \<Rightarrow> Null | Some t \<Rightarrow> str_val t)"

definition cells_val :: "cell list \<Rightarrow> pyval" where
  "cells_val cs = Arr (map Sc cs)"

fun the_default :: "'a \<Rightarrow> 'a option \<Rightarrow> 'a" where
  "the_default d None = d"
| "the_default d (Some x) = x"

text \<open>
  The figure \<open>{'data': [...], 'layout': {...}, 'frames': [...]}\<close> and a frame
  \<open>{'data': [...], 'name': ...}\<close> have fixed keys and are records; the layout and the
  traces, whose keys depend on the call, are dicts.
\<close>

record frame =
  frame_data :: "pyval list"
  frame_name :: string

record figure =
  fig_data :: "pyval list"
  fig_layout :: dict
  fig_frames :: "frame list"

section \<open>Layout Builder\<close>

definition axis :: "string option \<Rightarrow> bool \<Rightarrow> pyval" where
  "axis title logscale =
     (let a = [(''title'', opt_str title), (''autorange'', bool_val False)]
      in Obj (if logscale then dict_set a ''type'' (str_val ''log'') else a))"

definition set2Daxes :: "figure \<Rightarrow> string option \<Rightarrow> string option \<Rightarrow> bool \<Rightarrow> bool \<Rightarrow> figure" where
  "set2Daxes figure x_title y_title x_logscale y_logscale =
     figure\<lparr>fig_layout :=
       dict_set (dict_set (fig_layout figure) ''xaxis'' (axis x_title x_logscale))
         ''yaxis'' (axis y_title y_logscale)\<rparr>"

definition set3Daxes :: "figure \<Rightarrow> string option \<Rightarrow> string option \<Rightarrow> string option
    \<Rightarrow> bool \<Rightarrow> bool \<Rightarrow> bool \<Rightarrow> figure" where
  "set3Daxes figure x_title y_title z_title x_logscale y_logscale z_logscale =
     figure\<lparr>fig_layout :=
       dict_set (fig_layout figure) ''scene''
         (Obj [(''xaxis'', axis x_title x_logscale),
               (''yaxis'', axis y_title y_logscale),
               (''zaxis'', axis z_title z_logscale)])\<rparr>"

definition sliders_dict0 :: dict where
  "sliders_dict0 =
     [(''active'', int_val 0),
      (''yanchor'', str_val ''top''),
      (''xanchor'', str_val ''left''),
      (''currentvalue'', Obj [(''font'', Obj [(''size'', int_val 20)]),
                              (''prefix'', str_val ''Year:''),
                              (''visible'', bool_val True),
                              (''xanchor'', str_val ''right'')]),
      (''transition'', Obj [(''duration'', int_val 300), (''easing'', str_val ''cubic-in-out'')]),
      (''pad'', Obj [(''b'', int_val 10), (''t'', int_val 50)]),
      (''len'', real_val (9 / 10)),
      (''x'', real_val (1 / 10)),
      (''y'', int_val 0),
      (''steps'', Arr [])]"

text \<open>
  \<open>addSlider\<close> stores the initial slider in the layout and returns the slider dict;
  \<open>min(slider_scale)\<close> raises TypeError on \<open>None\<close> and ValueError on an empty scale.
\<close>

definition addSlider :: "figure \<Rightarrow> cell list option \<Rightarrow> error + figure \<times> dict" where
  "addSlider figure slider_scale =
     ebind (case slider_scale of None \<Rightarrow> Inl TypeError | Some s \<Rightarrow> cells_min s) (\<lambda>m.
       Inr (figure\<lparr>fig_layout := dict_set (fig_layout figure) ''sliders''
              (Obj [(''args'', Arr [str_val ''slider.value'',
                                    Obj [(''duration'', int_val 400),
                                         (''ease'', str_val ''cubic-in-out'')]]),
                    (''initialValue'', Sc m),
                    (''plotlycommand'', str_val ''animate''),
                    (''values'', cells_val (the_default [] slider_scale)),
                    (''visible'', bool_val True)])\<rparr>,
            sliders_dict0))"

text \<open>\<open>sliders_dict['steps'].append(slider_step)\<close>.\<close>

definition addSliderSteps :: "pylib \<Rightarrow> dict \<Rightarrow> cell \<Rightarrow> error + dict" where
  "addSliderSteps L sliders_dict year =
     (let slider_step =
        Obj [(''args'', Arr [Arr [Sc year],
                             Obj [(''frame'', Obj [(''duration'', int_val 300),
                                                   (''redraw'', bool_val False)]),
                                  (''mode'', str_val ''immediate''),
                                  (''transition'', Obj [(''duration'', int_val 300)])]]),
             (''label'', str_val (py_str L year)),
             (''method'', str_val ''animate'')]
      in case map_of sliders_dict ''steps'' of
           None \<Rightarrow> Inl KeyError
         | Some (Arr steps) \<Rightarrow> Inr (dict_set sliders_dict ''steps'' (Arr (steps @ [slider_step])))
         | Some _ \<Rightarrow> Inl TypeError)"

definition addButton :: "figure \<Rightarrow> figure" where
  "addButton figure =
     figure\<lparr>fig_layout := dict_set (fig_layout figure) ''updatemenus''
       (Arr [Obj [(''buttons'',
                   Arr [Obj [(''args'', Arr [Null,
                               Obj [(''frame'', Obj [(''duration'', int_val 500),
                                                     (''redraw'', bool_val False)]),
                                    (''fromcurrent'', bool_val True),
                                    (''transition'', Obj [(''duration'', int_val 300),
                                        (''easing'', str_val ''quadratic-in-out'')])]]),
                             (''label'', str_val ''Play''),
                             (''method'', str_val ''animate'')],
                        Obj [(''args'', Arr [Arr [Null],
                               Obj [(''frame'', Obj [(''duration'', int_val 0),
                                                     (''redraw'', bool_val False)]),
                                    (''mode'', str_val ''immediate''),
                                    (''transition'', Obj [(''duration'', int_val 0)])]]),
                             (''label'', str_val ''Pause''),
                             (''method'', str_val ''animate'')]]),
                  (''direction'', str_val ''left''),
                  (''pad'', Obj [(''r'', int_val 10), (''t'', int_val 87)]),
                  (''showactive'', bool_val False),
                  (''type'', str_val ''buttons''),
                  (''xanchor'', str_val ''right''),
                  (''yanchor'', str_val ''top''),
                  (''x'', real_val (1 / 10)),
                  (''y'', int_val 0)]])\<rparr>"

text \<open>
  The first part of \<open>setLayout\<close>: the axes, the title, the hover mode, the legend flag,
  the margins and the size. \<open>if width:\<close> and \<open>if height:\<close> are conditions on the
  value: both \<open>None\<close> and 0 leave the key out.
\<close>

definition layout_base :: "string option \<Rightarrow> string option \<Rightarrow> string option \<Rightarrow> string option
    \<Rightarrow> bool \<Rightarrow> bool \<Rightarrow> bool \<Rightarrow> bool \<Rightarrow> bool \<Rightarrow> int option \<Rightarrow> int option \<Rightarrow> figure" where
  "layout_base x_title y_title z_title title x_logscale y_logscale z_logscale axes3D
       show_legend width height =
     (let figure0 = \<lparr>fig_data = [], fig_layout = [], fig_frames = []\<rparr>;
          figure1 = (if axes3D
                     then set3Daxes figure0 x_title y_title z_title x_logscale y_logscale z_logscale
                     else set2Daxes figure0 x_title y_title x_logscale y_logscale);
          l1 = dict_set (fig_layout figure1) ''title'' (opt_str title);
          l2 = dict_set l1 ''hovermode'' (str_val ''closest'');
          l3 = dict_set l2 ''showlegend'' (bool_val show_legend);
          l4 = dict_set l3 ''margin''
                 (Obj [(''b'', int_val 50), (''t'', int_val 50), (''pad'', int_val 5)]);
          l5 = (case width of None \<Rightarrow> l4
                | Some w \<Rightarrow> if w \<noteq> 0 then dict_set l4 ''width'' (int_val w) else l4);
          l6 = (case height of None \<Rightarrow> l5
                | Some h \<Rightarrow> if h \<noteq> 0 then dict_set l5 ''height'' (int_val h) else l5)
      in figure1\<lparr>fig_layout := l6\<rparr>)"

text \<open>
  \<open>setLayout\<close>: the slider and the buttons are added to the layout above.
  \<open>slider_scale\<close> is read only when \<open>show_slider\<close> holds.
\<close>

definition setLayout :: "string option \<Rightarrow> string option \<Rightarrow> string option \<Rightarrow> string option
    \<Rightarrow> bool \<Rightarrow> bool \<Rightarrow> bool \<Rightarrow> bool \<Rightarrow> bool \<Rightarrow> cell list option \<Rightarrow> bool \<Rightarrow> bool
    \<Rightarrow> int option \<Rightarrow> int option \<Rightarrow> error + figure \<times> dict" where
  "setLayout x_title y_title z_title title x_logscale y_logscale z_logscale axes3D
       show_slider slider_scale show_button show_legend width height =
     (let figure = layout_base x_title y_title z_title title x_logscale y_logscale z_logscale
                     axes3D show_legend width height
      in ebind (if show_slider then addSlider figure slider_scale else Inr (figure, []))
           (\<lambda>(figure', sliders_dict).
              Inr (if show_button then addButton figure' else figure', sliders_dict)))"

section \<open>Trace Builder\<close>

text \<open>
  \<open>grid.loc[grid['key'] == template.format(...), 'value'].values[0]\<close>: the values of the
  first row with the key. A grid without any row has no \<open>key\<close> column (KeyError); a
  grid without a matching row gives an empty selection, and \<open>[0]\<close> raises IndexError.
\<close>

definition grid_value :: "grid \<Rightarrow> template \<Rightarrow> piece list \<Rightarrow> error + cell list" where
  "grid_value grid col_name_template args =
     (if grid = [] then Inl KeyError
      else ebind (format_str col_name_template args) (\<lambda>k.
        case filter (\<lambda>row. fst row = k) grid of
          [] \<Rightarrow> Inl IndexError
        | row # _ \<Rightarrow> Inr (snd row)))"

text \<open>The argument \<open>category\<close> of \<open>format\<close>, which may be \<open>None\<close>.\<close>

definition category_arg :: "pylib \<Rightarrow> cell option \<Rightarrow> piece" where
  "category_arg L category = Lit (case category of None \<Rightarrow> ''None'' | Some c \<Rightarrow> py_str L c)"

definition truthy_real :: "real option \<Rightarrow> bool" where
  "truthy_real r = (case r of None \<Rightarrow> False | Some v \<Rightarrow> v \<noteq> 0)"

definition getTrace :: "pylib \<Rightarrow> grid \<Rightarrow> template \<Rightarrow> string \<Rightarrow> string \<Rightarrow> string \<Rightarrow> string option
    \<Rightarrow> string option \<Rightarrow> npfloat option \<Rightarrow> real \<Rightarrow> real option \<Rightarrow> real option
    \<Rightarrow> string option \<Rightarrow> string option \<Rightarrow> bool \<Rightarrow> string option \<Rightarrow> cell option
    \<Rightarrow> error + dict" where
  "getTrace L grid col_name_template x_column y_column bubble_column z_column
       size_column sizeref scale_bubble marker_opacity marker_border_width
       color_column colorscale show_colorbar colorbar_title category =
     ebind (grid_value grid col_name_template [Lit x_column, category_arg L category]) (\<lambda>x.
     ebind (grid_value grid col_name_template [Lit y_column, category_arg L category]) (\<lambda>y.
     ebind (grid_value grid col_name_template [Lit bubble_column, category_arg L category]) (\<lambda>text.
     let trace0 = [(''x'', cells_val x), (''y'', cells_val y), (''text'', cells_val text),
                   (''mode'', str_val ''markers'')]
     in
     ebind (case given z_column of
              None \<Rightarrow> Inr trace0
            | Some zc \<Rightarrow>
                ebind (grid_value grid col_name_template [Lit zc, category_arg L category])
                  (\<lambda>z. Inr (dict_set trace0 ''z'' (cells_val z)))) (\<lambda>trace1.
     ebind (case given size_column of
              Some sc \<Rightarrow>
                ebind (grid_value grid col_name_template [Lit sc, category_arg L category])
                  (\<lambda>size. Inr [(''sizemode'', str_val ''area''),
                                (''sizeref'', (case sizeref of None \<Rightarrow> Null
                                               | Some r \<Rightarrow> Sc (FloatC r))),
                                (''size'', cells_val size)])
            | None \<Rightarrow> Inr [(''size'', Sc (FloatC (np_mul (Fin scale_bubble) 10)))]) (\<lambda>marker0.
     let marker1 = (if truthy_real marker_opacity
                    then dict_set marker0 ''opacity'' (real_val (the_default 0 marker_opacity))
                    else marker0);
         marker2 = (if truthy_real marker_border_width
                    then dict_set marker1 ''line''
                           (Obj [(''width'', real_val (the_default 0 marker_border_width))])
                    else marker1)
     in
     ebind (case given color_column of
              None \<Rightarrow> Inr marker2
            | Some cc \<Rightarrow>
                ebind (grid_value grid col_name_template [Lit cc]) (\<lambda>color.
                  Inr (dict_set
                         (dict_set (dict_set marker2 ''color'' (cells_val color))
                            ''colorbar'' (Obj [(''title'', opt_str colorbar_title)]))
                         ''colorscale'' (opt_str colorscale)))) (\<lambda>marker3.
     let trace2 = dict_set trace1 ''marker'' (Obj marker3)
     in Inr (case category of
               None \<Rightarrow> trace2
             | Some c \<Rightarrow> if cell_truthy c then dict_set trace2 ''name'' (Sc c) else trace2)))))))"

section \<open>Orchestrator\<close>

text \<open>The arguments of \<open>bubbleplot\<close> other than the dataset.\<close>

record args =
  p_x_column :: string
  p_y_column :: string
  p_bubble_column :: string
  p_z_column :: "string option"
  p_time_column :: "string option"
  p_size_column :: "string option"
  p_color_column :: "string option"
  p_x_logscale :: bool
  p_y_logscale :: bool
  p_z_logscale :: bool
  p_x_range :: "pyval option"
  p_y_range :: "pyval option"
  p_z_range :: "pyval option"
  p_x_title :: "string option"
  p_y_title :: "string option"
  p_z_title :: "string option"
  p_title :: "string option"
  p_colorbar_title :: "string option"
  p_scale_bubble :: real
  p_colorscale :: "string option"
  p_marker_opacity :: "real option"
  p_marker_border_width :: "real option"
  p_show_slider :: bool
  p_show_button :: bool
  p_show_colorbar :: bool
  p_show_legend :: "bool option"
  p_width :: "int option"
  p_height :: "int option"

text \<open>
  The color column is the category column when its dtype is \<open>category\<close>, \<open>object\<close> or
  \<open>bool\<close>. The result is the pair \<open>(category_column, color_column)\<close>.
\<close>

definition classify_color :: "dataset \<Rightarrow> string option \<Rightarrow> error + string option \<times> string option" where
  "classify_color dataset color_column =
     (case given color_column of
        None \<Rightarrow> Inr (None, color_column)
      | Some c \<Rightarrow>
          ebind (get_col dataset c) (\<lambda>col.
            if dtype_name col \<in> set [''category'', ''object'', ''bool'']
            then Inr (Some c, None)
            else Inr (None, color_column)))"

text \<open>
  The names of the columns the grid needs, in the order the source appends them.
\<close>

definition needed_columns :: "string \<Rightarrow> string \<Rightarrow> string \<Rightarrow> string option \<Rightarrow> string option
    \<Rightarrow> string option \<Rightarrow> string list" where
  "needed_columns x_column y_column bubble_column z_column size_column color_column =
     [x_column, y_column]
     @ (case given z_column of Some z \<Rightarrow> [z] | None \<Rightarrow> [])
     @ [bubble_column]
     @ (case given size_column of Some s \<Rightarrow> [s] | None \<Rightarrow> [])
     @ (case given color_column of Some c \<Rightarrow> [c] | None \<Rightarrow> [])"

text \<open>
  \<open>sizeref = 2.*max(dataset[size_column])/(scale_bubble*80**2)\<close>, or \<open>None\<close> without a
  size column. \<open>max\<close> raises ValueError on an empty column, the product raises TypeError
  on text and the division raises ZeroDivisionError when the divisor is zero.
\<close>

text \<open>The quotient of two floats, the divisor not being zero.\<close>

fun np_div :: "npfloat \<Rightarrow> npfloat \<Rightarrow> npfloat" where
  "np_div NaN d = NaN"
| "np_div x NaN = NaN"
| "np_div (Fin a) (Fin d) = round_double (a / d)"
| "np_div (Fin a) d = Fin 0"
| "np_div PosInf (Fin d) = (if 0 < d then PosInf else NegInf)"
| "np_div NegInf (Fin d) = (if 0 < d then NegInf else PosInf)"
| "np_div x d = NaN"

definition bubble_sizeref :: "dataset \<Rightarrow> string option \<Rightarrow> real \<Rightarrow> error + npfloat option" where
  "bubble_sizeref dataset size_column scale_bubble =
     (case given size_column of
        None \<Rightarrow> Inr None
      | Some sc \<Rightarrow>
          ebind (get_col dataset sc) (\<lambda>c.
            if cells c = [] then Inl ValueError
            else case numbers c of
              None \<Rightarrow> Inl TypeError
            | Some vs \<Rightarrow>
                ebind (py_max vs) (\<lambda>m.
                  let divisor = np_mul (Fin scale_bubble) (80 ^ 2)
                  in if divisor = Fin 0 then Inl ZeroDivisionError
                     else Inr (Some (np_div (np_mul (py_float m) 2) divisor)))))"

text \<open>\<open>trace['type'] = 'scatter3d'\<close> when there is a z column.\<close>

definition with_type :: "string option \<Rightarrow> dict \<Rightarrow> pyval" where
  "with_type z_column trace =
     Obj (case given z_column of
            Some _ \<Rightarrow> dict_set trace ''type'' (str_val ''scatter3d'')
          | None \<Rightarrow> trace)"

text \<open>
  The loop over the time values: each step builds the traces of the frame, appends the
  frame and, when the slider is shown, appends a slider step. The state of the loop is
  the list of frames and the slider dict.
\<close>

fun frames_loop :: "pylib \<Rightarrow> (cell \<Rightarrow> error + pyval list) \<Rightarrow> bool \<Rightarrow> cell list
    \<Rightarrow> frame list \<times> dict \<Rightarrow> error + frame list \<times> dict" where
  "frames_loop L traces_of show_slider [] st = Inr st"
| "frames_loop L traces_of show_slider (year # years) (frames, sliders_dict) =
     ebind (traces_of year) (\<lambda>ts.
     ebind (if show_slider then addSliderSteps L sliders_dict year else Inr sliders_dict)
       (\<lambda>sliders_dict'.
          frames_loop L traces_of show_slider years
            (frames @ [\<lparr>frame_data = ts, frame_name = py_str L year\<rparr>], sliders_dict')))"

text \<open>\<open>figure['layout'][axis]['range'] = r\<close>, under \<open>scene\<close> in three dimensions.\<close>

definition set_range :: "bool \<Rightarrow> dict \<Rightarrow> string \<Rightarrow> pyval \<Rightarrow> error + dict" where
  "set_range axes3D layout ax r =
     (if axes3D then
        (case map_of layout ''scene'' of
           None \<Rightarrow> Inl KeyError
         | Some (Obj scene) \<Rightarrow>
             ebind (dict_set_in scene ax ''range'' r)
               (\<lambda>scene'. Inr (dict_set layout ''scene'' (Obj scene')))
         | Some _ \<Rightarrow> Inl TypeError)
      else dict_set_in layout ax ''range'' r)"

text \<open>The range of an axis: the one supplied, or the one computed from the column.\<close>

definition axis_range :: "dataset \<Rightarrow> pyval option \<Rightarrow> string \<Rightarrow> bool \<Rightarrow> error + pyval" where
  "axis_range dataset given_range col_name logscale =
     (case given_range of
        Some r \<Rightarrow> Inr r
      | None \<Rightarrow>
          ebind (get_col dataset col_name) (\<lambda>c.
          ebind (setRange c logscale) (\<lambda>r. Inr (Arr (map (\<lambda>f. Sc (FloatC f)) r)))))"

text \<open>
  One call of \<open>getTrace\<close> from \<open>bubbleplot\<close>, followed by the assignment of the trace
  type. \<open>color\<close> holds the four arguments \<open>color_column, colorscale, show_colorbar,
  colorbar_title\<close>, which the calls for a category leave at their defaults.
\<close>

definition trace_of :: "pylib \<Rightarrow> args \<Rightarrow> grid \<Rightarrow> npfloat option \<Rightarrow> template
    \<Rightarrow> string option \<times> string option \<times> bool \<times> string option \<Rightarrow> cell option
    \<Rightarrow> error + pyval" where
  "trace_of L a grid sizeref t color category =
     (case color of (color_column, colorscale, show_colorbar, colorbar_title) \<Rightarrow>
        ebind (getTrace L grid t (p_x_column a) (p_y_column a) (p_bubble_column a)
                 (p_z_column a) (p_size_column a) sizeref (p_scale_bubble a)
                 (p_marker_opacity a) (p_marker_border_width a)
                 color_column colorscale show_colorbar colorbar_title category)
          (\<lambda>trace. Inr (with_type (p_z_column a) trace)))"

definition no_color :: "string option \<times> string option \<times> bool \<times> string option" where
  "no_color = (None, None, True, None)"

text \<open>The traces of the frame of one time value: one for each category, or a single one.\<close>

definition category_frame :: "pylib \<Rightarrow> args \<Rightarrow> grid \<Rightarrow> npfloat option \<Rightarrow> cell list \<Rightarrow> cell
    \<Rightarrow> error + pyval list" where
  "category_frame L a grid sizeref categories year =
     emap (\<lambda>category.
             ebind (format tmpl3 [Lit (py_str L year), Hole, Hole])
               (\<lambda>t. trace_of L a grid sizeref t no_color (Some category)))
       categories"

definition plain_frame :: "pylib \<Rightarrow> args \<Rightarrow> grid \<Rightarrow> npfloat option
    \<Rightarrow> string option \<times> string option \<times> bool \<times> string option \<Rightarrow> cell
    \<Rightarrow> error + pyval list" where
  "plain_frame L a grid sizeref color year =
     ebind (format tmpl2 [Lit (py_str L year), Hole]) (\<lambda>t.
     ebind (trace_of L a grid sizeref t color None) (\<lambda>trace.
       Inr [trace]))"

text \<open>
  The base traces and the frames (the part of \<open>bubbleplot\<close> between the computation of
  \<open>sizeref\<close> and that of the ranges). With a category column there is one base trace for
  each category; \<open>min(years)\<close> is evaluated inside the loop over the categories.
\<close>

definition build_traces :: "pylib \<Rightarrow> args \<Rightarrow> grid \<Rightarrow> string option \<Rightarrow> string option
    \<Rightarrow> cell list \<Rightarrow> cell list \<Rightarrow> npfloat option \<Rightarrow> bool \<Rightarrow> figure \<Rightarrow> dict
    \<Rightarrow> error + figure \<times> dict" where
  "build_traces L a grid category_column color_column years categories sizeref show_slider
       figure sliders_dict =
     (let color = (color_column, p_colorscale a, p_show_colorbar a, p_colorbar_title a)
      in
      case given category_column of
        Some _ \<Rightarrow>
          ebind (emap (\<lambda>category.
                   ebind (case given (p_time_column a) of
                            Some _ \<Rightarrow> ebind (cells_min years) (\<lambda>year.
                                        format tmpl3 [Lit (py_str L year), Hole, Hole])
                          | None \<Rightarrow> Inr tmpl2) (\<lambda>t.
                     trace_of L a grid sizeref t no_color (Some category)))
                 categories) (\<lambda>base.
          let figure1 = figure\<lparr>fig_data := fig_data figure @ base\<rparr>
          in case given (p_time_column a) of
               Some _ \<Rightarrow>
                 ebind (frames_loop L (category_frame L a grid sizeref categories)
                          show_slider years (fig_frames figure1, sliders_dict))
                   (\<lambda>(frames, sliders_dict').
                      Inr (figure1\<lparr>fig_frames := frames\<rparr>, sliders_dict'))
             | None \<Rightarrow> Inr (figure1, sliders_dict))
      | None \<Rightarrow>
          ebind (case given (p_time_column a) of
                   Some _ \<Rightarrow> ebind (cells_min years) (\<lambda>year.
                               format tmpl2 [Lit (py_str L year), Hole])
                 | None \<Rightarrow> Inr tmpl1) (\<lambda>t.
          ebind (trace_of L a grid sizeref t color None) (\<lambda>trace.
          let figure1 = figure\<lparr>fig_data := fig_data figure @ [trace]\<rparr>
          in case given (p_time_column a) of
               Some _ \<Rightarrow>
                 ebind (frames_loop L (plain_frame L a grid sizeref color)
                          show_slider years (fig_frames figure1, sliders_dict))
                   (\<lambda>(frames, sliders_dict').
                      Inr (figure1\<lparr>fig_frames := frames\<rparr>, sliders_dict'))
             | None \<Rightarrow> Inr (figure1, sliders_dict))))"

text \<open>
  The time values in the order of their first appearance, and the two display flags:
  without a time column the slider and the buttons are switched off whatever the caller
  asked for.
\<close>

definition time_points :: "dataset \<Rightarrow> string option \<Rightarrow> bool \<Rightarrow> bool
    \<Rightarrow> error + cell list option \<times> bool \<times> bool" where
  "time_points dataset time_column show_slider show_button =
     (case given time_column of
        Some tc \<Rightarrow> ebind (get_col dataset tc) (\<lambda>c.
                     Inr (Some (unique (cells c)), show_slider, show_button))
      | None \<Rightarrow> Inr (None, False, False))"

text \<open>
  The categories, the grid and the legend flag: with a category column the legend is
  shown unless the caller says otherwise, without one it is hidden unless the caller says
  otherwise.
\<close>

definition build_grid :: "pylib \<Rightarrow> dataset \<Rightarrow> string list \<Rightarrow> string option \<Rightarrow> string option
    \<Rightarrow> cell list option \<Rightarrow> bool option \<Rightarrow> error + cell list \<times> grid \<times> bool" where
  "build_grid L dataset column_names time_column category_column years show_legend =
     (case given category_column of
        Some cc \<Rightarrow>
          ebind (get_col dataset cc) (\<lambda>c.
          let categories = unique (cells c) in
          ebind (makeGridWithCategories L dataset column_names time_column cc
                   years (Some categories)) (\<lambda>grid.
            Inr (categories, grid, (case show_legend of None \<Rightarrow> True | Some b \<Rightarrow> b))))
      | None \<Rightarrow>
          ebind (makeGrid L dataset column_names time_column years) (\<lambda>grid.
            Inr ([], grid, (case show_legend of None \<Rightarrow> False | Some b \<Rightarrow> b))))"

text \<open>
  The ranges of the axes are computed where the caller gave none and stored in the
  layout.
\<close>

definition place_ranges :: "dataset \<Rightarrow> args \<Rightarrow> bool \<Rightarrow> dict \<Rightarrow> error + dict" where
  "place_ranges dataset a axes3D layout =
     ebind (axis_range dataset (p_x_range a) (p_x_column a) (p_x_logscale a)) (\<lambda>x_range.
     ebind (axis_range dataset (p_y_range a) (p_y_column a) (p_y_logscale a)) (\<lambda>y_range.
     if axes3D then
       ebind (axis_range dataset (p_z_range a) (the_default [] (p_z_column a))
                (p_z_logscale a)) (\<lambda>z_range.
       ebind (set_range True layout ''xaxis'' x_range) (\<lambda>l1.
       ebind (set_range True l1 ''yaxis'' y_range) (\<lambda>l2.
         set_range True l2 ''zaxis'' z_range)))
     else
       ebind (set_range False layout ''xaxis'' x_range) (\<lambda>l1.
         set_range False l1 ''yaxis'' y_range)))"

text \<open>\<open>bubbleplot\<close>: the steps above in the order of the source.\<close>

definition bubbleplot :: "pylib \<Rightarrow> dataset \<Rightarrow> args \<Rightarrow> error + figure" where
  "bubbleplot L dataset a =
     ebind (classify_color dataset (p_color_column a)) (\<lambda>(category_column, color_column).
     ebind (time_points dataset (p_time_column a) (p_show_slider a) (p_show_button a))
       (\<lambda>(years, show_slider, show_button).
     let column_names = needed_columns (p_x_column a) (p_y_column a) (p_bubble_column a)
                          (p_z_column a) (p_size_column a) color_column;
         axes3D = (given (p_z_column a) \<noteq> None)
     in
     ebind (build_grid L dataset column_names (p_time_column a) category_column years
              (p_show_legend a)) (\<lambda>(categories, grid, showlegend).
     let slider_scale = (if show_slider then years else None)
     in
     ebind (setLayout (p_x_title a) (p_y_title a) (p_z_title a) (p_title a)
              (p_x_logscale a) (p_y_logscale a) (p_z_logscale a) axes3D
              show_slider slider_scale show_button showlegend (p_width a) (p_height a))
       (\<lambda>(figure, sliders_dict).
     ebind (bubble_sizeref dataset (p_size_column a) (p_scale_bubble a)) (\<lambda>sizeref.
     ebind (build_traces L a grid category_column color_column (the_default [] years)
              categories sizeref show_slider figure sliders_dict)
       (\<lambda>(figure1, sliders_dict1).
     ebind (place_ranges dataset a axes3D (fig_layout figure1)) (\<lambda>layout.
       Inr (figure1\<lparr>fig_layout :=
              (if show_slider then dict_set layout ''sliders'' (Arr [Obj sliders_dict1])
               else layout)\<rparr>))))))))"

section \<open>Observations and example data\<close>

text \<open>
  The marker of a trace, and all the traces of a figure: those of the base data followed
  by those of the frames.
\<close>

definition trace_marker :: "pyval \<Rightarrow> dict option" where
  "trace_marker tr =
     (case tr of
        Obj t \<Rightarrow> (case map_of t ''marker'' of Some (Obj m) \<Rightarrow> Some m | _ \<Rightarrow> None)
      | _ \<Rightarrow> None)"

definition all_traces :: "figure \<Rightarrow> pyval list" where
  "all_traces fig = fig_data fig @ concat (map frame_data (fig_frames fig))"

text \<open>A trace is made by a call of \<open>trace_of\<close> with the given color column.\<close>

definition made_by :: "pylib \<Rightarrow> args \<Rightarrow> grid \<Rightarrow> npfloat option \<Rightarrow> string option \<Rightarrow> pyval \<Rightarrow> bool" where
  "made_by L a grid sizeref color_column tr \<longleftrightarrow>
     (\<exists>t cc cs sc ct category.
        trace_of L a grid sizeref t (cc, cs, sc, ct) category = Inr tr
        \<and> given cc = given color_column)"

text \<open>
  The dataset of the specification's example, a dataset in which every pair of a year
  and a country has a row, and the default arguments of \<open>bubbleplot\<close>.
\<close>

definition example_lib :: pylib where
  "example_lib = \<lparr>float_repr = (\<lambda>r. ''''), int_of_str = (\<lambda>s. None)\<rparr>"

definition example_dataset :: dataset where
  "example_dataset =
     [(''year'', IntCol [2000, 2000, 2001]),
      (''gdp'', IntCol [1, 2, 3]),
      (''pop'', IntCol [10, 20, 30]),
      (''country'', ObjCol [''A'', ''B'', ''A''])]"

definition default_args :: "string \<Rightarrow> string \<Rightarrow> string \<Rightarrow> args" where
  "default_args x y b =
     \<lparr>p_x_column = x, p_y_column = y, p_bubble_column = b, p_z_column = None,
      p_time_column = None, p_size_column = None, p_color_column = None,
      p_x_logscale = False, p_y_logscale = False, p_z_logscale = False,
      p_x_range = None, p_y_range = None, p_z_range = None,
      p_x_title = None, p_y_title = None, p_z_title = None, p_title = None,
      p_colorbar_title = None, p_scale_bubble = 1, p_colorscale = None,
      p_marker_opacity = None, p_marker_border_width = None,
      p_show_slider = True, p_show_button = True, p_show_colorbar = True,
      p_show_legend = None, p_width = None, p_height = None\<rparr>"

definition full_dataset :: dataset where
  "full_dataset =
     [(''year'', IntCol [2000, 2000, 2001, 2001]),
      (''gdp'', IntCol [1, 2, 3, 4]),
      (''pop'', IntCol [10, 20, 30, 40]),
      (''country'', ObjCol [''A'', ''B'', ''A'', ''B'']),
      (''size'', IntCol [10, 20, 40, 40])]"

text \<open>
  An axis can be drawn from a column when the column exists and either the caller gives
  the range or the column is numeric and not empty.
\<close>

definition plottable :: "dataset \<Rightarrow> pyval option \<Rightarrow> string \<Rightarrow> bool" where
  "plottable dataset given_range col_name =
     (case map_of dataset col_name of
        None \<Rightarrow> False
      | Some c \<Rightarrow> given_range \<noteq> None \<or> (cells c \<noteq> [] \<and> numbers c \<noteq> None))"

section \<open>The grid, row by row\<close>

text \<open>
  The specification of the grid speaks of the rows of the dataset that match a time value
  and a category, and of the values of a column over those rows in their original order.
  The definitions below say this directly, on the dataset read as a list of rows; the
  Grid Builder, which works with boolean masks over columns, is compared with them.
  A row is a function from column names to scalars. A dataset is rectangular when all its
  columns have the same length.
\<close>

definition col_cells :: "dataset \<Rightarrow> string \<Rightarrow> cell list" where
  "col_cells dataset name = (case map_of dataset name of None \<Rightarrow> [] | Some c \<Rightarrow> cells c)"

definition nrows :: "dataset \<Rightarrow> nat" where
  "nrows dataset = (case dataset of [] \<Rightarrow> 0 | (name, c) # _ \<Rightarrow> length (cells c))"

definition rectangular :: "dataset \<Rightarrow> bool" where
  "rectangular dataset \<longleftrightarrow> (\<forall>(name, c)\<in>set dataset. length (cells c) = nrows dataset)"

definition spec_rows :: "dataset \<Rightarrow> (string \<Rightarrow> cell) list" where
  "spec_rows dataset = map (\<lambda>i name. col_cells dataset name ! i) [0..<nrows dataset]"

text \<open>The values of a column over the rows that are kept, in row order.\<close>

definition spec_filtered :: "dataset \<Rightarrow> ((string \<Rightarrow> cell) \<Rightarrow> bool) \<Rightarrow> string \<Rightarrow> cell list" where
  "spec_filtered dataset keep col_name = map (\<lambda>row. row col_name) (filter keep (spec_rows dataset))"

text \<open>
  One entry for each listed column whose values over the kept rows are not empty.
\<close>

definition spec_entries :: "dataset \<Rightarrow> (string \<Rightarrow> string) \<Rightarrow> ((string \<Rightarrow> cell) \<Rightarrow> bool)
    \<Rightarrow> string list \<Rightarrow> grid" where
  "spec_entries dataset key keep column_names =
     concat (map (\<lambda>col_name.
                    let vs = spec_filtered dataset keep col_name
                    in if vs = [] then [] else [(key col_name, vs)])
               column_names)"

text \<open>
  A row matches a time value when its time equals the integer the value is coerced to,
  and a category when its category equals it.
\<close>

definition time_is :: "pylib \<Rightarrow> string \<Rightarrow> cell \<Rightarrow> (string \<Rightarrow> cell) \<Rightarrow> bool" where
  "time_is L time_column year row =
     (case py_int L year of Inl _ \<Rightarrow> False | Inr k \<Rightarrow> cell_eq (row time_column) (IntC k))"

definition category_is :: "string \<Rightarrow> cell \<Rightarrow> (string \<Rightarrow> cell) \<Rightarrow> bool" where
  "category_is category_column category row = cell_eq (row category_column) category"

text \<open>The composite keys, written out.\<close>

definition key2 :: "string \<Rightarrow> string \<Rightarrow> string" where
  "key2 a b = a @ ''+'' @ b @ ''_grid''"

definition key3 :: "string \<Rightarrow> string \<Rightarrow> string \<Rightarrow> string" where
  "key3 a b c = a @ ''+'' @ b @ ''+'' @ c @ ''_grid''"

section \<open>Basic facts\<close>

lemma ebind_Inr [simp]: "ebind (Inr v) f = f v"
  by (simp add: ebind_def)

lemma ebind_Inl [simp]: "ebind (Inl e) f = Inl e"
  by (simp add: ebind_def)

lemma ebind_eq_Inr: "ebind m f = Inr r \<longleftrightarrow> (\<exists>v. m = Inr v \<and> f v = Inr r)"
  by (cases m) simp_all

lemma ebind_eq_Inl: "ebind m f = Inl e \<longleftrightarrow> m = Inl e \<or> (\<exists>v. m = Inr v \<and> f v = Inl e)"
  by (cases m) simp_all

lemma numbers_length: "numbers c = Some vs \<Longrightarrow> length (cells c) = length vs"
  by (cases c) auto

section \<open>Rounding\<close>

lemma floor_log2:
  assumes "2 powr of_int e \<le> x" and "x < 2 powr (of_int e + 1)"
  shows "\<lfloor>log 2 x\<rfloor> = e"
proof -
  have pos: "0 < x" using assms(1) by (smt (verit) powr_gt_zero)
  have "of_int e \<le> log 2 x" using assms(1) pos by (simp add: le_log_iff)
  moreover have "log 2 x < of_int e + 1" using assms(2) pos by (simp add: log_less_iff)
  ultimately show ?thesis by linarith
qed

text \<open>The value of \<open>round_double\<close> at a number whose binary exponent is known.\<close>

lemma round_double_at:
  assumes "2 powi e \<le> \<bar>r\<bar>" and "\<bar>r\<bar> < 2 powi (e + 1)" and "- 1022 \<le> e"
  shows "round_double r =
     (let ulp = 2 powi (e - 52);
          v = of_int (round_half_even (\<bar>r\<bar> / ulp)) * ulp
      in if 2 ^ 1024 \<le> v then (if 0 < r then PosInf else NegInf)
         else Fin (if 0 < r then v else - v))"
proof -
  have p: "2 powr of_int k = (2::real) powi k" for k
    by (simp add: powr_real_of_int')
  have "(0::real) < 2 powi e" by simp
  then have "0 < \<bar>r\<bar>" using assms(1) by linarith
  then have "r \<noteq> 0" by simp
  moreover have "\<lfloor>log 2 \<bar>r\<bar>\<rfloor> = e"
    by (rule floor_log2) (use assms(1,2) p [of e] p [of "e + 1"] in simp_all)
  then have "max \<lfloor>log 2 \<bar>r\<bar>\<rfloor> (- 1022) = e"
    using assms(3) by simp
  ultimately show ?thesis by (simp add: round_double_def)
qed

lemma round_half_even_le: "round_half_even q \<le> \<lceil>q\<rceil>"
  unfolding round_half_even_def Let_def by (auto simp: ceiling_def) linarith+

text \<open>Below \<open>2^1023\<close> the rounded value is finite.\<close>

lemma round_double_finite:
  assumes "2 powi e \<le> \<bar>r\<bar>" and "\<bar>r\<bar> < 2 powi (e + 1)" and "- 1022 \<le> e" and "e \<le> 1022"
  shows "round_double r =
     Fin ((if 0 < r then 1 else - 1)
          * (of_int (round_half_even (\<bar>r\<bar> / 2 powi (e - 52))) * 2 powi (e - 52)))"
proof -
  let ?u = "(2::real) powi (e - 52)"
  let ?n = "round_half_even (\<bar>r\<bar> / ?u)"
  have u: "0 < ?u" by simp
  have pw: "?u * 2 ^ 53 = 2 powi (e + 1)"
    using power_int_add [of "2::real" "e - 52" 53] by (simp add: add.commute)
  then have "\<bar>r\<bar> / ?u < 2 ^ 53"
    using assms(2) u by (simp add: field_simps)
  then have "\<bar>r\<bar> / ?u \<le> of_int (2 ^ 53)" by simp
  then have "\<lceil>\<bar>r\<bar> / ?u\<rceil> \<le> 2 ^ 53" by (simp only: ceiling_le_iff)
  then have "?n \<le> 2 ^ 53" using round_half_even_le [of "\<bar>r\<bar> / ?u"] by linarith
  then have "real_of_int ?n \<le> real_of_int (2 ^ 53)" by (simp only: of_int_le_iff)
  then have "of_int ?n \<le> (2::real) ^ 53" by simp
  then have "of_int ?n * ?u \<le> 2 ^ 53 * ?u" using u by (simp only: mult_le_cancel_right_pos)
  also have "\<dots> = 2 powi (e + 1)" using pw by (simp add: mult.commute)
  also have "\<dots> \<le> 2 powi 1023" using assms(4) by (intro power_int_increasing) simp_all
  also have "\<dots> < (2::real) ^ 1024" by simp
  finally have "\<not> 2 ^ 1024 \<le> of_int ?n * ?u" by simp
  then show ?thesis
    using round_double_at [OF assms(1,2,3)] by (simp add: Let_def)
qed

lemma round_half_even_int [simp]: "round_half_even (of_int n) = n"
  by (simp add: round_half_even_def)

text \<open>An integer below \<open>2^53\<close> in absolute value is a double.\<close>

lemma round_double_int:
  assumes "\<bar>n\<bar> < 2 ^ 53"
  shows "round_double (of_int n) = Fin (of_int n)"
proof (cases "n = 0")
  case True
  then show ?thesis by (simp add: round_double_def)
next
  case False
  define r :: real where "r = \<bar>of_int n\<bar>"
  define e where "e = \<lfloor>log 2 r\<rfloor>"
  define k where "k = nat (52 - e)"
  have r1: "1 \<le> r" using False by (simp add: r_def)
  have "real_of_int \<bar>n\<bar> < real_of_int (2 ^ 53)" using assms by (simp only: of_int_less_iff)
  then have r2: "r < 2 ^ 53" by (simp add: r_def)
  have "0 \<le> log 2 r" using r1 by simp
  then have e0: "0 \<le> e" by (simp add: e_def)
  have "log 2 r < 53" using r1 r2 by (simp add: log_less_iff)
  then have e52: "e \<le> 52" unfolding e_def by linarith
  have ulp: "(2::real) powi (e - 52) = 1 / 2 ^ k"
    using e52 by (cases "e = 52") (simp_all add: power_int_def k_def field_simps)
  have q: "r / (2 powi (e - 52)) = of_int (\<bar>n\<bar> * 2 ^ k)"
    by (simp add: ulp r_def)
  have v: "of_int (round_half_even (r / (2 powi (e - 52)))) * (2 powi (e - 52)) = r"
    unfolding q round_half_even_int by (simp add: ulp r_def)
  have big: "\<not> 2 ^ 1024 \<le> r"
  proof -
    have "(2::real) ^ 53 \<le> 2 ^ 1024" by (rule power_increasing) simp_all
    then show ?thesis using r2 by linarith
  qed
  have "max \<lfloor>log 2 \<bar>real_of_int n\<bar>\<rfloor> (- 1022) = e"
    using e0 by (simp add: e_def r_def)
  then show ?thesis
    using False v big by (simp add: round_double_def r_def [symmetric] Let_def) (simp add: r_def)
qed

lemma signed_abs: "(if 0 < x then \<bar>x\<bar> else - \<bar>x\<bar>) = (x::real)"
  by simp

text \<open>
  Rounding leaves a double unchanged: a normal double is \<open>n * 2^(e - 52)\<close> with
  \<open>2^52 \<le> |n| < 2^53\<close> and \<open>-1022 \<le> e \<le> 1023\<close>, a subnormal one or zero is
  \<open>n * 2^-1074\<close> with \<open>|n| < 2^52\<close>.
\<close>

lemma round_double_normal:
  assumes "2 ^ 52 \<le> \<bar>n\<bar>" and "\<bar>n\<bar> < 2 ^ 53" and "- 1022 \<le> e" and "e \<le> 1023"
  shows "round_double (of_int n * 2 powi (e - 52)) = Fin (of_int n * 2 powi (e - 52))"
proof -
  let ?u = "(2::real) powi (e - 52)"
  let ?r = "of_int n * ?u"
  have u: "0 < ?u" by simp
  have abs: "\<bar>?r\<bar> = of_int \<bar>n\<bar> * ?u" by (simp add: abs_mult)
  have "real_of_int (2 ^ 52) \<le> real_of_int \<bar>n\<bar>" using assms(1) by (simp only: of_int_le_iff)
  then have lo': "2 ^ 52 * ?u \<le> of_int \<bar>n\<bar> * ?u" using u by simp
  have "real_of_int \<bar>n\<bar> < real_of_int (2 ^ 53)" using assms(2) by (simp only: of_int_less_iff)
  then have hi': "of_int \<bar>n\<bar> * ?u < 2 ^ 53 * ?u" using u by simp
  have p52: "2 ^ 52 * ?u = 2 powi e"
    using power_int_add [of "2::real" 52 "e - 52"] by simp
  have p53: "2 ^ 53 * ?u = 2 powi (e + 1)"
    using power_int_add [of "2::real" 53 "e - 52"] by (simp add: add.commute)
  have lo: "2 powi e \<le> \<bar>?r\<bar>" using lo' unfolding abs p52 .
  have hi: "\<bar>?r\<bar> < 2 powi (e + 1)" using hi' unfolding abs p53 .
  have "(2::real) powi (e + 1) \<le> 2 powi 1024"
    using assms(4) by (intro power_int_increasing) simp_all
  then have small: "\<not> 2 ^ 1024 \<le> \<bar>?r\<bar>" using hi by simp
  have q: "of_int \<bar>n\<bar> * ?u / ?u = of_int \<bar>n\<bar>" using u by simp
  have v: "of_int (round_half_even (\<bar>?r\<bar> / ?u)) * ?u = \<bar>?r\<bar>"
    by (simp only: abs q round_half_even_int)
  have "round_double ?r = Fin (if 0 < ?r then \<bar>?r\<bar> else - \<bar>?r\<bar>)"
    unfolding round_double_at [OF lo hi assms(3)] Let_def v using small by simp
  then show ?thesis by (simp only: signed_abs)
qed

lemma round_double_subnormal:
  assumes "\<bar>n\<bar> < 2 ^ 52"
  shows "round_double (of_int n * 2 powi (- 1074)) = Fin (of_int n * 2 powi (- 1074))"
proof (cases "n = 0")
  case True
  then show ?thesis by (simp add: round_double_def)
next
  case False
  let ?u = "(2::real) powi (- 1022 - 52)"
  let ?r = "of_int n * ?u"
  have u: "0 < ?u" by simp
  have r0: "?r \<noteq> 0" using False by simp
  have abs: "\<bar>?r\<bar> = of_int \<bar>n\<bar> * ?u" by (simp add: abs_mult)
  have "real_of_int \<bar>n\<bar> < real_of_int (2 ^ 52)" using assms by (simp only: of_int_less_iff)
  then have "of_int \<bar>n\<bar> * ?u < 2 ^ 52 * ?u" using u by simp
  moreover have "2 ^ 52 * ?u = 2 powi (- 1022)"
    using power_int_add [of "2::real" 52 "- 1074"] by simp
  ultimately have hi: "\<bar>?r\<bar> < 2 powi (- 1022)" unfolding abs by simp
  have p: "2 powr of_int k = (2::real) powi k" for k
    by (simp add: powr_real_of_int')
  have "\<bar>?r\<bar> < 2 powr of_int (- 1022)" using hi unfolding p .
  then have "log 2 \<bar>?r\<bar> < of_int (- 1022)"
    using r0 by (intro iffD2 [OF log_less_iff]) simp_all
  then have "\<lfloor>log 2 \<bar>?r\<bar>\<rfloor> < - 1022" by linarith
  then have e: "max \<lfloor>log 2 \<bar>?r\<bar>\<rfloor> (- 1022) = - 1022" by simp
  have q: "of_int \<bar>n\<bar> * ?u / ?u = of_int \<bar>n\<bar>" using u by simp
  have v: "of_int (round_half_even (\<bar>?r\<bar> / ?u)) * ?u = \<bar>?r\<bar>"
    by (simp only: abs q round_half_even_int)
  have "(2::real) powi (- 1022) \<le> 2 powi 1024" by (intro power_int_increasing) simp_all
  then have small: "\<not> 2 ^ 1024 \<le> \<bar>?r\<bar>" using hi by simp
  have "round_double ?r = Fin (if 0 < ?r then \<bar>?r\<bar> else - \<bar>?r\<bar>)"
    unfolding round_double_def e Let_def v using r0 small by (simp only: if_False)
  then have "round_double ?r = Fin ?r" by (simp only: signed_abs)
  then show ?thesis by simp
qed

lemma round_double_numeral [simp]:
  "numeral k < (2::int) ^ 53 \<Longrightarrow> round_double (numeral k) = Fin (numeral k)"
  using round_double_int [of "numeral k"] by simp

lemma round_double_0 [simp]: "round_double 0 = Fin 0"
  by (simp add: round_double_def)

lemma round_double_1 [simp]: "round_double 1 = Fin 1"
  using round_double_int [of 1] by simp

text \<open>The literals of the source: the decimal number, rounded, is the float.\<close>

lemma round_double_decimal:
  "round_double (7 / 10) = Fin lit_0_7"
  "round_double (14 / 10) = Fin lit_1_4"
  "round_double (97 / 100) = Fin lit_0_97"
  "round_double (104 / 100) = Fin lit_1_04"
proof -
  show "round_double (7 / 10) = Fin lit_0_7"
    using round_double_finite [of "- 1" "7 / 10"]
    by (simp add: round_half_even_def Let_def lit_0_7_def)
  show "round_double (14 / 10) = Fin lit_1_4"
    using round_double_finite [of 0 "14 / 10"]
    by (simp add: round_half_even_def Let_def lit_1_4_def)
  show "round_double (97 / 100) = Fin lit_0_97"
    using round_double_finite [of "- 1" "97 / 100"]
    by (simp add: round_half_even_def Let_def lit_0_97_def)
  show "round_double (104 / 100) = Fin lit_1_04"
    using round_double_finite [of 0 "104 / 100"]
    by (simp add: round_half_even_def Let_def lit_1_04_def)
qed

lemma round_double_literal:
  "round_double lit_0_7 = Fin lit_0_7"
  "round_double lit_1_4 = Fin lit_1_4"
  "round_double lit_0_97 = Fin lit_0_97"
  "round_double lit_1_04 = Fin lit_1_04"
proof -
  show "round_double lit_0_7 = Fin lit_0_7"
    using round_double_finite [of "- 1" lit_0_7]
    by (simp add: round_half_even_def Let_def lit_0_7_def)
  show "round_double lit_1_4 = Fin lit_1_4"
    using round_double_finite [of 0 lit_1_4]
    by (simp add: round_half_even_def Let_def lit_1_4_def)
  show "round_double lit_0_97 = Fin lit_0_97"
    using round_double_finite [of "- 1" lit_0_97]
    by (simp add: round_half_even_def Let_def lit_0_97_def)
  show "round_double lit_1_04 = Fin lit_1_04"
    using round_double_finite [of 0 lit_1_04]
    by (simp add: round_half_even_def Let_def lit_1_04_def)
qed

lemma literal_pos [simp]: "0 < lit_0_7" "0 < lit_1_4" "0 < lit_0_97" "0 < lit_1_04"
  by (simp_all add: lit_0_7_def lit_1_4_def lit_0_97_def lit_1_04_def)

text \<open>
  Products and quotients round and overflow as the doubles do: \<open>3 * 1.4\<close> is not
  \<open>4.2\<close>, \<open>1.5e308 * 1.4\<close> is \<open>inf\<close>, \<open>100 * 1.4\<close> is \<open>140.0\<close>, and \<open>80. / 6400\<close> is
  the float of the literal \<open>0.0125\<close>.
\<close>

lemma rounding_examples:
  "np_mul (Fin 3) lit_1_4 = Fin (1182194902184755 / 281474976710656)"
  "round_double (42 / 10) = Fin (4728779608739021 / 1125899906842624)"
  "np_mul (Fin (15 * 10 ^ 307)) lit_1_4 = PosInf"
  "np_mul (Fin 100) lit_1_4 = Fin 140"
  "np_mul (Fin 2) lit_1_04 = Fin (2 * lit_1_04)"
  "np_div (Fin 80) (Fin 6400) = Fin (3602879701896397 / 288230376151711744)"
  "round_double (125 / 10000) = Fin (3602879701896397 / 288230376151711744)"
proof -
  show "np_mul (Fin 3) lit_1_4 = Fin (1182194902184755 / 281474976710656)"
    using round_double_finite [of 2 "3 * lit_1_4"]
    by (simp add: round_half_even_def Let_def lit_1_4_def)
  show "round_double (42 / 10) = Fin (4728779608739021 / 1125899906842624)"
    using round_double_finite [of 2 "42 / 10"]
    by (simp add: round_half_even_def Let_def)
  show "np_mul (Fin (15 * 10 ^ 307)) lit_1_4 = PosInf"
    using round_double_at [of 1024 "15 * 10 ^ 307 * lit_1_4"]
    by (simp add: round_half_even_def Let_def lit_1_4_def)
  show "np_mul (Fin 100) lit_1_4 = Fin 140"
    using round_double_finite [of 7 "100 * lit_1_4"]
    by (simp add: round_half_even_def Let_def lit_1_4_def)
  show "np_mul (Fin 2) lit_1_04 = Fin (2 * lit_1_04)"
    using round_double_finite [of 1 "2 * lit_1_04"]
    by (simp add: round_half_even_def Let_def lit_1_04_def)
  show "round_double (125 / 10000) = Fin (3602879701896397 / 288230376151711744)"
    using round_double_finite [of "- 7" "125 / 10000"]
    by (simp add: round_half_even_def Let_def)
  then show "np_div (Fin 80) (Fin 6400) = Fin (3602879701896397 / 288230376151711744)"
    by simp
qed

section \<open>The Range Calculator on numbers\<close>


lemma fold_max_Fin:
  "fold (\<lambda>item cur. if np_lt cur item then item else cur) (map Fin rs) (Fin a)
   = Fin (fold max rs a)"
  by (induction rs arbitrary: a) (auto simp: max_def)


lemma py_max_Fin: "rs \<noteq> [] \<Longrightarrow> py_max (map Fin rs) = Inr (Fin (Max (set rs)))"
  by (cases rs) (simp_all add: py_max_def fold_max_Fin Max.set_eq_fold del: set_simps)

lemma py_min_total: "xs \<noteq> [] \<Longrightarrow> \<exists>m. py_min xs = Inr m"
  by (cases xs) (simp_all add: py_min_def)

lemma py_max_total: "xs \<noteq> [] \<Longrightarrow> \<exists>m. py_max xs = Inr m"
  by (cases xs) (simp_all add: py_max_def)


lemma fold_min_NegInf:
  "fold (\<lambda>item cur. if np_lt item cur then item else cur) xs NegInf = NegInf"
  by (induction xs) auto

lemma fold_min_has_NegInf:
  "NegInf \<in> set xs \<Longrightarrow> NaN \<notin> set xs \<Longrightarrow> cur \<noteq> NaN \<Longrightarrow>
   fold (\<lambda>item cur. if np_lt item cur then item else cur) xs cur = NegInf"
proof (induction xs arbitrary: cur)
  case Nil
  then show ?case by simp
next
  case (Cons x xs)
  show ?case
  proof (cases "x = NegInf")
    case True
    then have "(if np_lt x cur then x else cur) = NegInf"
      using Cons.prems(3) by (cases cur) auto
    then show ?thesis by (simp add: fold_min_NegInf)
  next
    case False
    then have "NegInf \<in> set xs" using Cons.prems(1) by simp
    moreover have "NaN \<notin> set xs" using Cons.prems(2) by simp
    moreover have "(if np_lt x cur then x else cur) \<noteq> NaN"
      using Cons.prems(2,3) by auto
    ultimately show ?thesis using Cons.IH by simp
  qed
qed




text \<open>
  Claim C7, as the code has it. With the log flag true \<open>setRange\<close> raises no domain
  error: it fails only on an empty sequence (ValueError from \<open>min\<close>) and on text
  (TypeError). A zero among non-negative numbers gives the lower bound \<open>-inf\<close>.
\<close>

theorem setRange_log_failures:
  "(setRange values True = Inl e \<longleftrightarrow>
      (cells values = [] \<and> e = ValueError)
      \<or> (cells values \<noteq> [] \<and> numbers values = None \<and> e = TypeError))
   \<and> (numbers values = Some (map Fin rs) \<longrightarrow> 0 \<in> set rs \<longrightarrow> (\<forall>r\<in>set rs. 0 \<le> r) \<longrightarrow>
        (\<exists>hi. setRange values True = Inr [NegInf, hi]))"
proof
  show "setRange values True = Inl e \<longleftrightarrow>
      (cells values = [] \<and> e = ValueError)
      \<or> (cells values \<noteq> [] \<and> numbers values = None \<and> e = TypeError)"
  proof (cases "cells values = []")
    case True
    then show ?thesis by (auto simp: setRange_def)
  next
    case False
    show ?thesis
    proof (cases "numbers values")
      case None
      then show ?thesis using False by (auto simp: setRange_def)
    next
      case (Some vs)
      then have "map np_log10 vs \<noteq> []"
        using False numbers_length [OF Some] by auto
      then obtain lo hi
        where "py_min (map np_log10 vs) = Inr lo" "py_max (map np_log10 vs) = Inr hi"
        using py_min_total py_max_total by blast
      then show ?thesis using False Some by (simp add: setRange_def)
    qed
  qed
  show "numbers values = Some (map Fin rs) \<longrightarrow> 0 \<in> set rs \<longrightarrow> (\<forall>r\<in>set rs. 0 \<le> r) \<longrightarrow>
        (\<exists>hi. setRange values True = Inr [NegInf, hi])"
  proof (intro impI)
    assume num: "numbers values = Some (map Fin rs)" and zero: "0 \<in> set rs"
      and nonneg: "\<forall>r\<in>set rs. 0 \<le> r"
    let ?ls = "map np_log10 (map Fin rs)"
    have ne: "cells values \<noteq> []"
      using numbers_length [OF num] zero by auto
    have inf: "NegInf \<in> set ?ls"
      using zero by (force simp: image_iff)
    have nan: "NaN \<notin> set ?ls"
      using nonneg by (auto split: if_splits)
    obtain x r where ls: "?ls = x # r"
      using zero by (cases rs) auto
    have "x \<noteq> NaN" using nan ls by auto
    moreover have "x = NegInf \<or> NegInf \<in> set r" using inf ls by auto
    ultimately have "fold (\<lambda>item cur. if np_lt item cur then item else cur) r x = NegInf"
      using fold_min_has_NegInf [of r x] fold_min_NegInf [of r] nan ls by auto
    then have lo: "py_min ?ls = Inr NegInf"
      by (simp only: ls py_min_def list.case)
    obtain hi where hi: "py_max ?ls = Inr hi"
      using py_max_total [of ?ls] ls by auto
    show "\<exists>hi. setRange values True = Inr [NegInf, hi]"
      using ne num by (simp add: setRange_def lo hi del: map_map)
  qed
qed

theorem setRange_log_failures_witness:
  "setRange (ObjCol [''a'']) True = Inl TypeError
   \<and> (\<exists>hi. setRange (FloatCol [Fin 10, Fin 0]) True = Inr [NegInf, hi])"
  using setRange_log_failures [of "ObjCol [''a'']" TypeError "[]"]
    setRange_log_failures [of "FloatCol [Fin 10, Fin 0]" TypeError "[10, 0]"]
  by simp

text \<open>
  The logarithm of zero is \<open>-inf\<close>, not an error, and a negative value among positive
  ones is passed over by \<open>min\<close> and \<open>max\<close>.
\<close>

theorem setRange_log_counterexample:
  "setRange (FloatCol [Fin 0]) True = Inr [NegInf, NegInf]
   \<and> setRange (FloatCol [Fin 10, Fin (- 1)]) True = Inr [Fin lit_0_97, Fin lit_1_04]"
  by (simp add: setRange_def py_min_def py_max_def round_double_literal)

section \<open>Dicts, loops and the steps of the orchestrator\<close>

lemma map_of_dict_set: "map_of (dict_set d k v) = (map_of d)(k \<mapsto> v)"
  by (induction d) (auto simp: fun_eq_iff)

lemma dict_keys_dict_set: "set (dict_keys (dict_set d k v)) = insert k (set (dict_keys d))"
  by (induction d) (auto simp: dict_keys_def)

lemma dict_key_iff: "k \<in> set (dict_keys d) \<longleftrightarrow> map_of d k \<noteq> None"
  by (simp add: dict_keys_def map_of_eq_None_iff)

lemma bubbleplot_InrE:
  assumes "bubbleplot L dataset a = Inr fig"
  obtains category_column color_column years show_slider show_button categories grid
    showlegend figure sliders_dict sizeref figure1 sliders_dict1 layout
  where "classify_color dataset (p_color_column a) = Inr (category_column, color_column)"
    and "time_points dataset (p_time_column a) (p_show_slider a) (p_show_button a)
           = Inr (years, show_slider, show_button)"
    and "build_grid L dataset
           (needed_columns (p_x_column a) (p_y_column a) (p_bubble_column a)
              (p_z_column a) (p_size_column a) color_column)
           (p_time_column a) category_column years (p_show_legend a)
           = Inr (categories, grid, showlegend)"
    and "setLayout (p_x_title a) (p_y_title a) (p_z_title a) (p_title a)
           (p_x_logscale a) (p_y_logscale a) (p_z_logscale a) (given (p_z_column a) \<noteq> None)
           show_slider (if show_slider then years else None) show_button showlegend
           (p_width a) (p_height a) = Inr (figure, sliders_dict)"
    and "bubble_sizeref dataset (p_size_column a) (p_scale_bubble a) = Inr sizeref"
    and "build_traces L a grid category_column color_column (the_default [] years)
           categories sizeref show_slider figure sliders_dict = Inr (figure1, sliders_dict1)"
    and "place_ranges dataset a (given (p_z_column a) \<noteq> None) (fig_layout figure1) = Inr layout"
    and "fig = figure1\<lparr>fig_layout :=
              (if show_slider then dict_set layout ''sliders'' (Arr [Obj sliders_dict1])
               else layout)\<rparr>"
  using assms unfolding bubbleplot_def Let_def
  by (auto simp: ebind_eq_Inr split: prod.splits)


lemma emap_Inr: "emap f xs = Inr ys \<Longrightarrow> list_all2 (\<lambda>x y. f x = Inr y) xs ys"
  by (induction xs arbitrary: ys) (auto simp: ebind_eq_Inr)

lemma emap_length: "emap f xs = Inr ys \<Longrightarrow> length ys = length xs"
  by (drule emap_Inr) (simp add: list_all2_lengthD)

lemma emap_total: "(\<And>x. x \<in> set xs \<Longrightarrow> \<exists>y. f x = Inr y) \<Longrightarrow> \<exists>ys. emap f xs = Inr ys"
proof (induction xs)
  case Nil
  show ?case by simp
next
  case (Cons x xs)
  obtain y where "f x = Inr y" using Cons.prems [of x] by auto
  moreover obtain ys where "emap f xs = Inr ys" using Cons by auto
  ultimately show ?case by simp
qed

lemma frames_loop_Inr:
  "frames_loop L f sh ys (frs, sd) = Inr (frs', sd') \<Longrightarrow>
   \<exists>new. frs' = frs @ new
     \<and> list_all2 (\<lambda>fr y. f y = Inr (frame_data fr) \<and> frame_name fr = py_str L y) new ys"
proof (induction ys arbitrary: frs sd)
  case Nil
  then show ?case by simp
next
  case (Cons y ys)
  from Cons.prems obtain ts sd1
    where ts: "f y = Inr ts"
      and rest: "frames_loop L f sh ys
                   (frs @ [\<lparr>frame_data = ts, frame_name = py_str L y\<rparr>], sd1) = Inr (frs', sd')"
    by (auto simp: ebind_eq_Inr)
  from Cons.IH [OF rest] obtain new
    where new: "frs' = (frs @ [\<lparr>frame_data = ts, frame_name = py_str L y\<rparr>]) @ new"
      and all: "list_all2 (\<lambda>fr y. f y = Inr (frame_data fr) \<and> frame_name fr = py_str L y) new ys"
    by blast
  have "frs' = frs @ (\<lparr>frame_data = ts, frame_name = py_str L y\<rparr> # new)"
    using new by simp
  moreover have "list_all2 (\<lambda>fr y. f y = Inr (frame_data fr) \<and> frame_name fr = py_str L y)
      (\<lparr>frame_data = ts, frame_name = py_str L y\<rparr> # new) (y # ys)"
    using ts all by simp
  ultimately show ?case by blast
qed

lemma build_traces_layout:
  "build_traces L a grid category_column color_column years categories sizeref show_slider
     figure sliders_dict = Inr (figure1, sliders_dict1) \<Longrightarrow>
   fig_layout figure1 = fig_layout figure"
  unfolding build_traces_def Let_def
  by (auto simp: ebind_eq_Inr split: option.splits prod.splits)

lemma category_frame_length:
  "category_frame L a grid sizeref categories year = Inr ts \<Longrightarrow> length ts = length categories"
  by (simp add: category_frame_def emap_length)

lemma plain_frame_length:
  "plain_frame L a grid sizeref color year = Inr ts \<Longrightarrow> length ts = 1"
  by (auto simp: plain_frame_def ebind_eq_Inr)

lemma frames_loop_new:
  assumes "frames_loop L f sh ys (frs, sd) = Inr (frs', sd')"
    and "\<And>y ts. f y = Inr ts \<Longrightarrow> length ts = n"
  shows "\<exists>new. frs' = frs @ new \<and> map frame_name new = map (py_str L) ys
           \<and> (\<forall>fr\<in>set new. length (frame_data fr) = n)"
proof -
  from frames_loop_Inr [OF assms(1)] obtain new
    where new: "frs' = frs @ new"
      and all: "list_all2 (\<lambda>fr y. f y = Inr (frame_data fr) \<and> frame_name fr = py_str L y) new ys"
    by blast
  have "map frame_name new = map (py_str L) ys"
    using all by (induction new ys rule: list_all2_induct) auto
  moreover have "\<forall>fr\<in>set new. length (frame_data fr) = n"
  proof
    fix fr assume "fr \<in> set new"
    then obtain y where "f y = Inr (frame_data fr)"
      using all by (auto simp: list_all2_conv_all_nth in_set_conv_nth)
    then show "length (frame_data fr) = n" by (rule assms(2))
  qed
  ultimately show ?thesis using new by blast
qed

lemma build_traces_no_time:
  "build_traces L a grid category_column color_column years categories sizeref
     show_slider figure sliders_dict = Inr (figure1, sliders_dict1) \<Longrightarrow>
   given (p_time_column a) = None \<Longrightarrow> fig_frames figure1 = fig_frames figure"
  unfolding build_traces_def Let_def
  by (auto simp: ebind_eq_Inr split: option.splits prod.splits)

lemma build_traces_frames:
  assumes "build_traces L a grid category_column color_column years categories sizeref
     show_slider figure sliders_dict = Inr (figure1, sliders_dict1)"
    and t: "given (p_time_column a) \<noteq> None"
  shows "\<exists>new. fig_frames figure1 = fig_frames figure @ new
            \<and> map frame_name new = map (py_str L) years
            \<and> (\<forall>fr\<in>set new. length (frame_data fr)
                  = (if given category_column = None then 1 else length categories))"
proof (cases "given category_column")
  case None
  from assms None obtain color
    where "frames_loop L (plain_frame L a grid sizeref color) show_slider years
             (fig_frames figure, sliders_dict) = Inr (fig_frames figure1, sliders_dict1)"
    unfolding build_traces_def Let_def
    by (auto simp: ebind_eq_Inr split: option.splits prod.splits)
  from frames_loop_new [OF this plain_frame_length] show ?thesis
    using None by simp
next
  case (Some cc)
  from assms Some
  have "frames_loop L (category_frame L a grid sizeref categories) show_slider years
             (fig_frames figure, sliders_dict) = Inr (fig_frames figure1, sliders_dict1)"
    unfolding build_traces_def Let_def
    by (auto simp: ebind_eq_Inr split: option.splits prod.splits)
  from frames_loop_new [OF this category_frame_length] show ?thesis
    using Some by simp
qed

lemma build_traces_data:
  "build_traces L a grid category_column color_column years categories sizeref show_slider
     figure sliders_dict = Inr (figure1, sliders_dict1) \<Longrightarrow>
   \<exists>base. fig_data figure1 = fig_data figure @ base
     \<and> length base = (if given category_column = None then 1 else length categories)"
  unfolding build_traces_def Let_def
  by (auto simp: ebind_eq_Inr emap_length split: option.splits prod.splits)

lemma layout_base_lists:
  "fig_data (layout_base xt yt zt t xl yl zl axes3D show_legend width height) = []"
  "fig_frames (layout_base xt yt zt t xl yl zl axes3D show_legend width height) = []"
  unfolding layout_base_def Let_def set2Daxes_def set3Daxes_def
  by simp_all

lemma layout_base_showlegend:
  "map_of (fig_layout (layout_base xt yt zt t xl yl zl axes3D show_legend width height))
     ''showlegend'' = Some (bool_val show_legend)"
  unfolding layout_base_def Let_def set2Daxes_def set3Daxes_def
  by (cases width; cases height) (simp_all add: map_of_dict_set)

lemma layout_base_width:
  "map_of (fig_layout (layout_base xt yt zt t xl yl zl axes3D show_legend width height))
     ''width'' = (case width of None \<Rightarrow> None
                  | Some w \<Rightarrow> if w \<noteq> 0 then Some (int_val w) else None)"
  unfolding layout_base_def Let_def set2Daxes_def set3Daxes_def
  by (cases width; cases height) (simp_all add: map_of_dict_set)

lemma layout_base_height:
  "map_of (fig_layout (layout_base xt yt zt t xl yl zl axes3D show_legend width height))
     ''height'' = (case height of None \<Rightarrow> None
                   | Some h \<Rightarrow> if h \<noteq> 0 then Some (int_val h) else None)"
  unfolding layout_base_def Let_def set2Daxes_def set3Daxes_def
  by (cases width; cases height) (simp_all add: map_of_dict_set)

lemma layout_base_no_controls:
  "map_of (fig_layout (layout_base xt yt zt t xl yl zl axes3D show_legend width height))
     ''sliders'' = None"
  "map_of (fig_layout (layout_base xt yt zt t xl yl zl axes3D show_legend width height))
     ''updatemenus'' = None"
  unfolding layout_base_def Let_def set2Daxes_def set3Daxes_def
  by (cases width; cases height; simp add: map_of_dict_set)+

lemma layout_base_axes2D:
  "\<exists>xa ya. map_of (fig_layout (layout_base xt yt zt t xl yl zl False show_legend width height))
       ''xaxis'' = Some (Obj xa)
     \<and> map_of (fig_layout (layout_base xt yt zt t xl yl zl False show_legend width height))
       ''yaxis'' = Some (Obj ya)"
  unfolding layout_base_def Let_def set2Daxes_def axis_def
  by (cases width; cases height) (simp_all add: map_of_dict_set)

lemma layout_base_axes3D:
  "\<exists>sc xa ya za.
     map_of (fig_layout (layout_base xt yt zt t xl yl zl True show_legend width height))
       ''scene'' = Some (Obj sc)
     \<and> map_of sc ''xaxis'' = Some (Obj xa) \<and> map_of sc ''yaxis'' = Some (Obj ya)
     \<and> map_of sc ''zaxis'' = Some (Obj za)"
  unfolding layout_base_def Let_def set3Daxes_def axis_def
  by (cases width; cases height) (simp_all add: map_of_dict_set)

lemma setLayout_InrE:
  assumes "setLayout xt yt zt t xl yl zl axes3D show_slider slider_scale show_button
             show_legend width height = Inr (figure, sd)"
  obtains figure' where
    "(if show_slider
      then addSlider (layout_base xt yt zt t xl yl zl axes3D show_legend width height) slider_scale
      else Inr (layout_base xt yt zt t xl yl zl axes3D show_legend width height, []))
     = Inr (figure', sd)"
    and "figure = (if show_button then addButton figure' else figure')"
  using assms unfolding setLayout_def Let_def
  by (auto simp: ebind_eq_Inr split: prod.splits)

lemma addSlider_Inr:
  "addSlider f s = Inr (f', sd) \<Longrightarrow>
   sd = sliders_dict0 \<and> (\<exists>v. f' = f\<lparr>fig_layout := dict_set (fig_layout f) ''sliders'' v\<rparr>)"
  unfolding addSlider_def by (auto simp: ebind_eq_Inr)

lemma addButton_layout:
  "\<exists>v. addButton f = f\<lparr>fig_layout := dict_set (fig_layout f) ''updatemenus'' v\<rparr>"
  unfolding addButton_def by blast

lemma setLayout_other:
  assumes "setLayout xt yt zt t xl yl zl axes3D show_slider slider_scale show_button
             show_legend width height = Inr (figure, sd)"
  shows "fig_data figure = []" and "fig_frames figure = []"
    and "k \<noteq> ''sliders'' \<Longrightarrow> k \<noteq> ''updatemenus'' \<Longrightarrow>
         map_of (fig_layout figure) k
           = map_of (fig_layout (layout_base xt yt zt t xl yl zl axes3D show_legend width height)) k"
    and "map_of (fig_layout figure) ''sliders'' \<noteq> None \<longleftrightarrow> show_slider"
    and "map_of (fig_layout figure) ''updatemenus'' \<noteq> None \<longleftrightarrow> show_button"
proof -
  let ?b = "layout_base xt yt zt t xl yl zl axes3D show_legend width height"
  from assms obtain figure' where
    s: "(if show_slider then addSlider ?b slider_scale else Inr (?b, [])) = Inr (figure', sd)"
    and f: "figure = (if show_button then addButton figure' else figure')"
    by (rule setLayout_InrE)
  have f': "figure' = ?b \<and> \<not> show_slider
      \<or> (show_slider \<and> (\<exists>v. figure' = ?b\<lparr>fig_layout := dict_set (fig_layout ?b) ''sliders'' v\<rparr>))"
    using s addSlider_Inr [of ?b slider_scale figure' sd] by (auto split: if_splits)
  obtain u where u: "addButton figure' = figure'\<lparr>fig_layout := dict_set (fig_layout figure') ''updatemenus'' u\<rparr>"
    using addButton_layout by blast
  show "fig_data figure = []" using f f' u by (auto simp: layout_base_lists)
  show "fig_frames figure = []" using f f' u by (auto simp: layout_base_lists)
  show "map_of (fig_layout figure) k = map_of (fig_layout ?b) k"
    if "k \<noteq> ''sliders''" "k \<noteq> ''updatemenus''"
    using f f' u that by (auto simp: map_of_dict_set)
  show "map_of (fig_layout figure) ''sliders'' \<noteq> None \<longleftrightarrow> show_slider"
    using f f' u by (auto simp: map_of_dict_set layout_base_no_controls)
  show "map_of (fig_layout figure) ''updatemenus'' \<noteq> None \<longleftrightarrow> show_button"
    using f f' u by (auto simp: map_of_dict_set layout_base_no_controls)
qed

lemma setLayout_total:
  "\<exists>figure sd. setLayout xt yt zt t xl yl zl axes3D False slider_scale
      show_button show_legend width height = Inr (figure, sd)"
  unfolding setLayout_def Let_def by simp

lemma dict_set_in_Inr:
  "dict_set_in d k1 k2 v = Inr d' \<Longrightarrow>
   \<exists>inner. map_of d k1 = Some (Obj inner) \<and> d' = dict_set d k1 (Obj (dict_set inner k2 v))"
  by (auto simp: dict_set_in_def split: option.splits pyval.splits)

lemma dict_set_in_Obj:
  "map_of d k1 = Some (Obj inner) \<Longrightarrow>
   dict_set_in d k1 k2 v = Inr (dict_set d k1 (Obj (dict_set inner k2 v)))"
  by (simp add: dict_set_in_def)

lemma set_range_other:
  "set_range axes3D l ax r = Inr l' \<Longrightarrow> k \<noteq> ax \<Longrightarrow> k \<noteq> ''scene'' \<Longrightarrow>
   map_of l' k = map_of l k"
  by (auto simp: set_range_def ebind_eq_Inr map_of_dict_set
      dest!: dict_set_in_Inr split: if_splits option.splits pyval.splits)

lemma place_ranges_other:
  assumes "place_ranges dataset a axes3D l = Inr l'"
    and "k \<noteq> ''xaxis''" "k \<noteq> ''yaxis''" "k \<noteq> ''zaxis''" "k \<noteq> ''scene''"
  shows "map_of l' k = map_of l k"
  using assms unfolding place_ranges_def
  by (auto simp: ebind_eq_Inr set_range_other split: if_splits)

lemma unique_length: "length (unique xs) = card (set xs)"
  by (simp add: unique_def length_remdups_card_conv)

lemma unique_set: "set (unique xs) = set xs"
  by (simp add: unique_def)

lemma unique_distinct: "distinct (unique xs)"
  by (simp add: unique_def)

lemma given_idem: "given (given s) = given s"
  by (cases s) auto

lemma given_Some: "given s = Some c \<longleftrightarrow> s = Some c \<and> c \<noteq> []"
  by (cases s) auto

lemma classify_color_Inr:
  "classify_color dataset color_column = Inr (cat, col) \<Longrightarrow>
   given cat = cat \<and> (cat = None \<or> given col = None)
   \<and> (cat \<noteq> None \<longrightarrow> cat = given color_column)"
  by (auto simp: classify_color_def ebind_eq_Inr given_Some split: option.splits if_splits)

lemma time_points_Inr:
  "time_points dataset time_column ss sb = Inr (years, show_slider, show_button) \<Longrightarrow>
   (case given time_column of
      None \<Rightarrow> years = None \<and> \<not> show_slider \<and> \<not> show_button
    | Some tc \<Rightarrow> (\<exists>c. get_col dataset tc = Inr c \<and> years = Some (unique (cells c)))
        \<and> show_slider = ss \<and> show_button = sb)"
  by (auto simp: time_points_def ebind_eq_Inr split: option.splits)

lemma build_grid_Inr:
  "build_grid L dataset column_names time_column category_column years show_legend
     = Inr (categories, grid, showlegend) \<Longrightarrow>
   showlegend = (case show_legend of None \<Rightarrow> given category_column \<noteq> None | Some b \<Rightarrow> b)
   \<and> (case given category_column of
        None \<Rightarrow> makeGrid L dataset column_names time_column years = Inr grid
      | Some cc \<Rightarrow> (\<exists>c. get_col dataset cc = Inr c \<and> categories = unique (cells c)
          \<and> makeGridWithCategories L dataset column_names time_column cc years
               (Some categories) = Inr grid))"
  by (auto simp: build_grid_def Let_def ebind_eq_Inr split: option.splits)

lemma bubbleplot_layout:
  assumes "bubbleplot L dataset a = Inr fig"
    and "classify_color dataset (p_color_column a) = Inr (category_column, color_column)"
  shows "map_of (fig_layout fig) ''showlegend''
           = Some (bool_val (case p_show_legend a of None \<Rightarrow> category_column \<noteq> None | Some b \<Rightarrow> b))"
    and "map_of (fig_layout fig) ''width''
           = (case p_width a of None \<Rightarrow> None | Some w \<Rightarrow> if w \<noteq> 0 then Some (int_val w) else None)"
    and "map_of (fig_layout fig) ''height''
           = (case p_height a of None \<Rightarrow> None | Some h \<Rightarrow> if h \<noteq> 0 then Some (int_val h) else None)"
    and "map_of (fig_layout fig) ''sliders'' \<noteq> None
           \<longleftrightarrow> given (p_time_column a) \<noteq> None \<and> p_show_slider a"
    and "map_of (fig_layout fig) ''updatemenus'' \<noteq> None
           \<longleftrightarrow> given (p_time_column a) \<noteq> None \<and> p_show_button a"
proof -
  from assms(1) obtain category_column' color_column' years show_slider show_button categories
    grid showlegend figure sliders_dict sizeref figure1 sliders_dict1 layout
    where cc: "classify_color dataset (p_color_column a) = Inr (category_column', color_column')"
      and tp: "time_points dataset (p_time_column a) (p_show_slider a) (p_show_button a)
           = Inr (years, show_slider, show_button)"
      and bg: "build_grid L dataset
           (needed_columns (p_x_column a) (p_y_column a) (p_bubble_column a)
              (p_z_column a) (p_size_column a) color_column')
           (p_time_column a) category_column' years (p_show_legend a)
           = Inr (categories, grid, showlegend)"
      and sl: "setLayout (p_x_title a) (p_y_title a) (p_z_title a) (p_title a)
           (p_x_logscale a) (p_y_logscale a) (p_z_logscale a) (given (p_z_column a) \<noteq> None)
           show_slider (if show_slider then years else None) show_button showlegend
           (p_width a) (p_height a) = Inr (figure, sliders_dict)"
      and bt: "build_traces L a grid category_column' color_column' (the_default [] years)
           categories sizeref show_slider figure sliders_dict = Inr (figure1, sliders_dict1)"
      and pr: "place_ranges dataset a (given (p_z_column a) \<noteq> None) (fig_layout figure1) = Inr layout"
      and fig: "fig = figure1\<lparr>fig_layout :=
              (if show_slider then dict_set layout ''sliders'' (Arr [Obj sliders_dict1])
               else layout)\<rparr>"
    by (rule bubbleplot_InrE)
  have same: "category_column' = category_column" using cc assms(2) by simp
  have g: "given category_column = category_column"
    using classify_color_Inr [OF assms(2)] by simp
  have legend: "showlegend = (case p_show_legend a of None \<Rightarrow> category_column \<noteq> None | Some b \<Rightarrow> b)"
    using build_grid_Inr [OF bg] unfolding same g by simp
  have flags: "show_slider = (given (p_time_column a) \<noteq> None \<and> p_show_slider a)"
      "show_button = (given (p_time_column a) \<noteq> None \<and> p_show_button a)"
    using time_points_Inr [OF tp] by (auto split: option.splits)
  have l1: "fig_layout figure1 = fig_layout figure"
    using bt by (rule build_traces_layout)
  have other: "map_of (fig_layout fig) k
      = map_of (fig_layout (layout_base (p_x_title a) (p_y_title a) (p_z_title a) (p_title a)
           (p_x_logscale a) (p_y_logscale a) (p_z_logscale a) (given (p_z_column a) \<noteq> None)
           showlegend (p_width a) (p_height a))) k"
    if "k \<noteq> ''xaxis''" "k \<noteq> ''yaxis''" "k \<noteq> ''zaxis''" "k \<noteq> ''scene''"
      "k \<noteq> ''sliders''" "k \<noteq> ''updatemenus''" for k
    using that fig place_ranges_other [OF pr, of k] setLayout_other(3) [OF sl, of k] l1
    by (simp add: map_of_dict_set)
  show "map_of (fig_layout fig) ''showlegend''
           = Some (bool_val (case p_show_legend a of None \<Rightarrow> category_column \<noteq> None | Some b \<Rightarrow> b))"
    using other [of "''showlegend''"] legend by (simp add: layout_base_showlegend)
  show "map_of (fig_layout fig) ''width''
           = (case p_width a of None \<Rightarrow> None | Some w \<Rightarrow> if w \<noteq> 0 then Some (int_val w) else None)"
    using other [of "''width''"] by (simp add: layout_base_width)
  show "map_of (fig_layout fig) ''height''
           = (case p_height a of None \<Rightarrow> None | Some h \<Rightarrow> if h \<noteq> 0 then Some (int_val h) else None)"
    using other [of "''height''"] by (simp add: layout_base_height)
  have "map_of (fig_layout fig) ''sliders'' \<noteq> None \<longleftrightarrow> show_slider"
    using fig place_ranges_other [OF pr, of "''sliders''"] setLayout_other(4) [OF sl] l1
    by (simp add: map_of_dict_set)
  then show "map_of (fig_layout fig) ''sliders'' \<noteq> None
           \<longleftrightarrow> given (p_time_column a) \<noteq> None \<and> p_show_slider a"
    using flags by simp
  have "map_of (fig_layout fig) ''updatemenus'' \<noteq> None \<longleftrightarrow> show_button"
    using fig place_ranges_other [OF pr, of "''updatemenus''"] setLayout_other(5) [OF sl] l1
    by (simp add: map_of_dict_set)
  then show "map_of (fig_layout fig) ''updatemenus'' \<noteq> None
           \<longleftrightarrow> given (p_time_column a) \<noteq> None \<and> p_show_button a"
    using flags by simp
qed

lemma bubbleplot_traces:
  assumes "bubbleplot L dataset a = Inr fig"
    and "classify_color dataset (p_color_column a) = Inr (category_column, color_column)"
  shows "\<exists>categories.
      (case category_column of None \<Rightarrow> True
       | Some cc \<Rightarrow> \<exists>c. get_col dataset cc = Inr c \<and> categories = unique (cells c))
    \<and> length (fig_data fig) = (if category_column = None then 1 else length categories)
    \<and> (\<forall>fr\<in>set (fig_frames fig). length (frame_data fr)
          = (if category_column = None then 1 else length categories))
    \<and> (case given (p_time_column a) of
          None \<Rightarrow> fig_frames fig = []
        | Some tc \<Rightarrow> \<exists>c. get_col dataset tc = Inr c
            \<and> map frame_name (fig_frames fig) = map (py_str L) (unique (cells c)))"
proof -
  from assms(1) obtain category_column' color_column' years show_slider show_button categories
    grid showlegend figure sliders_dict sizeref figure1 sliders_dict1 layout
    where cc: "classify_color dataset (p_color_column a) = Inr (category_column', color_column')"
      and tp: "time_points dataset (p_time_column a) (p_show_slider a) (p_show_button a)
           = Inr (years, show_slider, show_button)"
      and bg: "build_grid L dataset
           (needed_columns (p_x_column a) (p_y_column a) (p_bubble_column a)
              (p_z_column a) (p_size_column a) color_column')
           (p_time_column a) category_column' years (p_show_legend a)
           = Inr (categories, grid, showlegend)"
      and sl: "setLayout (p_x_title a) (p_y_title a) (p_z_title a) (p_title a)
           (p_x_logscale a) (p_y_logscale a) (p_z_logscale a) (given (p_z_column a) \<noteq> None)
           show_slider (if show_slider then years else None) show_button showlegend
           (p_width a) (p_height a) = Inr (figure, sliders_dict)"
      and bt: "build_traces L a grid category_column' color_column' (the_default [] years)
           categories sizeref show_slider figure sliders_dict = Inr (figure1, sliders_dict1)"
      and fig: "fig = figure1\<lparr>fig_layout :=
              (if show_slider then dict_set layout ''sliders'' (Arr [Obj sliders_dict1])
               else layout)\<rparr>"
    by (rule bubbleplot_InrE)
  have same: "category_column' = category_column" using cc assms(2) by simp
  have g: "given category_column = category_column"
    using classify_color_Inr [OF assms(2)] by simp
  have empty: "fig_data figure = []" "fig_frames figure = []"
    using setLayout_other(1,2) [OF sl] by simp_all
  have cats: "case category_column of None \<Rightarrow> True
       | Some cc \<Rightarrow> \<exists>c. get_col dataset cc = Inr c \<and> categories = unique (cells c)"
    using build_grid_Inr [OF bg] unfolding same g by (auto split: option.splits)
  have data: "length (fig_data fig) = (if category_column = None then 1 else length categories)"
    using build_traces_data [OF bt] empty same g fig by auto
  have frames: "\<forall>fr\<in>set (fig_frames fig). length (frame_data fr)
          = (if category_column = None then 1 else length categories)"
  proof (cases "given (p_time_column a)")
    case None
    then show ?thesis using build_traces_no_time [OF bt] empty fig by simp
  next
    case (Some tc)
    then show ?thesis using build_traces_frames [OF bt] empty fig same g by auto
  qed
  have names: "case given (p_time_column a) of
          None \<Rightarrow> fig_frames fig = []
        | Some tc \<Rightarrow> \<exists>c. get_col dataset tc = Inr c
            \<and> map frame_name (fig_frames fig) = map (py_str L) (unique (cells c))"
  proof (cases "given (p_time_column a)")
    case None
    then show ?thesis using build_traces_no_time [OF bt] empty fig by simp
  next
    case (Some tc)
    then obtain c where "get_col dataset tc = Inr c" "years = Some (unique (cells c))"
      using time_points_Inr [OF tp] by auto
    then show ?thesis using build_traces_frames [OF bt] empty fig Some by auto
  qed
  show ?thesis using cats data frames names by blast
qed

lemmas model_defs =
  bubbleplot_def classify_color_def time_points_def needed_columns_def build_grid_def
  makeGrid_def makeGridWithCategories_def grid_rows_def setLayout_def layout_base_def
  set2Daxes_def set3Daxes_def axis_def addSlider_def addSliderSteps_def addButton_def
  sliders_dict0_def bubble_sizeref_def build_traces_def trace_of_def no_color_def
  category_frame_def plain_frame_def getTrace_def grid_value_def category_arg_def
  truthy_real_def with_type_def place_ranges_def axis_range_def set_range_def dict_set_in_def
  setRange_def py_min_def py_max_def cells_min_def cells_max_def get_col_def select_def
  unique_def format_str_def tmpl1_def tmpl2_def tmpl3_def str_int_def
  str_val_def int_val_def bool_val_def real_val_def opt_str_def cells_val_def Let_def

lemmas example_defs = example_lib_def example_dataset_def full_dataset_def default_args_def

lemma made_byI:
  "trace_of L a grid sizeref t (cc, cs, sc, ct) category = Inr tr \<Longrightarrow>
   given cc = given color_column \<Longrightarrow> made_by L a grid sizeref color_column tr"
  unfolding made_by_def by blast

lemma list_all2_setD1: "list_all2 P xs ys \<Longrightarrow> x \<in> set xs \<Longrightarrow> \<exists>y\<in>set ys. P x y"
  by (induction rule: list_all2_induct) auto

lemma emap_set: "emap f xs = Inr ys \<Longrightarrow> y \<in> set ys \<Longrightarrow> \<exists>x\<in>set xs. f x = Inr y"
  by (induction xs arbitrary: ys) (auto simp: ebind_eq_Inr)

lemma frames_loop_set:
  assumes "frames_loop L f sh ys (frs, sd) = Inr (frs', sd')"
  shows "\<exists>new. frs' = frs @ new \<and> (\<forall>fr\<in>set new. \<exists>y. f y = Inr (frame_data fr))"
proof -
  from frames_loop_Inr [OF assms] obtain new
    where new: "frs' = frs @ new"
      and all: "list_all2 (\<lambda>fr y. f y = Inr (frame_data fr) \<and> frame_name fr = py_str L y) new ys"
    by blast
  have "\<forall>fr\<in>set new. \<exists>y. f y = Inr (frame_data fr)"
    using list_all2_setD1 [OF all] by blast
  then show ?thesis using new by blast
qed

lemma category_frame_made:
  "category_frame L a grid sizeref categories year = Inr ts \<Longrightarrow> tr \<in> set ts \<Longrightarrow>
   given color_column = None \<Longrightarrow> made_by L a grid sizeref color_column tr"
  unfolding category_frame_def
  by (drule emap_set, assumption) (auto simp: ebind_eq_Inr no_color_def intro: made_byI)

lemma plain_frame_made:
  "plain_frame L a grid sizeref (color_column, x) year = Inr ts \<Longrightarrow> tr \<in> set ts \<Longrightarrow>
   made_by L a grid sizeref color_column tr"
  unfolding plain_frame_def
  by (cases x) (auto simp: ebind_eq_Inr intro: made_byI)

lemma build_traces_made:
  assumes bt: "build_traces L a grid category_column color_column years categories sizeref
     show_slider figure sliders_dict = Inr (figure1, sliders_dict1)"
    and empty: "fig_data figure = []" "fig_frames figure = []"
    and excl: "given category_column = None \<or> given color_column = None"
    and tr: "tr \<in> set (all_traces figure1)"
  shows "made_by L a grid sizeref color_column tr"
proof (cases "given category_column")
  case None
  from bt None obtain t tr0 where
    base: "trace_of L a grid sizeref t
             (color_column, p_colorscale a, p_show_colorbar a, p_colorbar_title a) None = Inr tr0"
      "fig_data figure1 = [tr0]"
    and fr: "given (p_time_column a) = None \<and> fig_frames figure1 = []
        \<or> frames_loop L (plain_frame L a grid sizeref
               (color_column, p_colorscale a, p_show_colorbar a, p_colorbar_title a))
             show_slider years ([], sliders_dict) = Inr (fig_frames figure1, sliders_dict1)"
    using empty unfolding build_traces_def Let_def
    by (auto simp: ebind_eq_Inr split: option.splits prod.splits)
  from tr consider "tr = tr0" | fr0 where "fr0 \<in> set (fig_frames figure1)" "tr \<in> set (frame_data fr0)"
    using base(2) by (auto simp: all_traces_def)
  then show ?thesis
  proof cases
    case 1
    then show ?thesis using base(1) by (auto intro: made_byI)
  next
    case 2
    then have "frames_loop L (plain_frame L a grid sizeref
               (color_column, p_colorscale a, p_show_colorbar a, p_colorbar_title a))
             show_slider years ([], sliders_dict) = Inr (fig_frames figure1, sliders_dict1)"
      using fr by auto
    from frames_loop_set [OF this] 2 obtain y where
      "plain_frame L a grid sizeref
         (color_column, p_colorscale a, p_show_colorbar a, p_colorbar_title a) y
       = Inr (frame_data fr0)"
      by auto
    then show ?thesis using 2(2) by (rule plain_frame_made)
  qed
next
  case (Some cc)
  then have nocol: "given color_column = None" using excl by simp
  from bt Some obtain base where
    base: "emap (\<lambda>category.
                   ebind (case given (p_time_column a) of
                            Some _ \<Rightarrow> ebind (cells_min years) (\<lambda>year.
                                        format tmpl3 [Lit (py_str L year), Hole, Hole])
                          | None \<Rightarrow> Inr tmpl2) (\<lambda>t.
                     trace_of L a grid sizeref t no_color (Some category)))
                 categories = Inr base"
      "fig_data figure1 = base"
    and fr: "given (p_time_column a) = None \<and> fig_frames figure1 = []
        \<or> frames_loop L (category_frame L a grid sizeref categories)
             show_slider years ([], sliders_dict) = Inr (fig_frames figure1, sliders_dict1)"
    using empty unfolding build_traces_def Let_def
    by (auto simp: ebind_eq_Inr split: option.splits prod.splits)
  from tr consider "tr \<in> set base" | fr0 where "fr0 \<in> set (fig_frames figure1)" "tr \<in> set (frame_data fr0)"
    using base(2) by (auto simp: all_traces_def)
  then show ?thesis
  proof cases
    case 1
    from emap_set [OF base(1) 1] show ?thesis
      using nocol by (auto simp: ebind_eq_Inr no_color_def intro: made_byI)
  next
    case 2
    then have "frames_loop L (category_frame L a grid sizeref categories)
             show_slider years ([], sliders_dict) = Inr (fig_frames figure1, sliders_dict1)"
      using fr by auto
    from frames_loop_set [OF this] 2 obtain y where
      "category_frame L a grid sizeref categories y = Inr (frame_data fr0)"
      by auto
    then show ?thesis using 2(2) nocol by (rule category_frame_made)
  qed
qed

lemma getTrace_marker:
  assumes "getTrace L grid t x y b z size_column sizeref scale opacity border
             cc cs sc ct category = Inr trace"
  shows "\<exists>m. map_of trace ''marker'' = Some (Obj m)
     \<and> (given cc = None \<longrightarrow> map_of m ''color'' = None)
     \<and> (given size_column \<noteq> None \<longrightarrow>
          map_of m ''sizeref'' = Some (case sizeref of None \<Rightarrow> Null | Some r \<Rightarrow> Sc (FloatC r))
          \<and> map_of m ''sizemode'' = Some (str_val ''area''))"
proof -
  from assms obtain trace1 marker0 marker3 where
    m0: "(case given size_column of
              Some sc \<Rightarrow>
                ebind (grid_value grid t [Lit sc, category_arg L category])
                  (\<lambda>size. Inr [(''sizemode'', str_val ''area''),
                                (''sizeref'', (case sizeref of None \<Rightarrow> Null
                                               | Some r \<Rightarrow> Sc (FloatC r))),
                                (''size'', cells_val size)])
            | None \<Rightarrow> Inr [(''size'', Sc (FloatC (np_mul (Fin scale) 10)))]) = Inr marker0"
    and m3: "(case given cc of
              None \<Rightarrow> Inr
                (let marker1 = (if truthy_real opacity
                    then dict_set marker0 ''opacity'' (real_val (the_default 0 opacity))
                    else marker0)
                 in (if truthy_real border
                    then dict_set marker1 ''line''
                           (Obj [(''width'', real_val (the_default 0 border))])
                    else marker1))
            | Some c \<Rightarrow>
                ebind (grid_value grid t [Lit c]) (\<lambda>color.
                  Inr (dict_set
                         (dict_set (dict_set
                            (let marker1 = (if truthy_real opacity
                                then dict_set marker0 ''opacity'' (real_val (the_default 0 opacity))
                                else marker0)
                             in (if truthy_real border
                                then dict_set marker1 ''line''
                                       (Obj [(''width'', real_val (the_default 0 border))])
                                else marker1)) ''color'' (cells_val color))
                            ''colorbar'' (Obj [(''title'', opt_str ct)]))
                         ''colorscale'' (opt_str cs)))) = Inr marker3"
    and tr: "trace = (case category of
               None \<Rightarrow> dict_set trace1 ''marker'' (Obj marker3)
             | Some c \<Rightarrow> if cell_truthy c
                 then dict_set (dict_set trace1 ''marker'' (Obj marker3)) ''name'' (Sc c)
                 else dict_set trace1 ''marker'' (Obj marker3))"
    unfolding getTrace_def Let_def by (auto simp: ebind_eq_Inr)
  have marker: "map_of trace ''marker'' = Some (Obj marker3)"
    using tr by (cases category) (simp_all add: map_of_dict_set)
  have color: "map_of marker3 ''color'' = None" if "given cc = None"
    using m0 m3 that
    by (cases "given size_column")
       (auto simp: ebind_eq_Inr map_of_dict_set Let_def)
  have size: "map_of marker3 ''sizeref'' = Some (case sizeref of None \<Rightarrow> Null | Some r \<Rightarrow> Sc (FloatC r))
          \<and> map_of marker3 ''sizemode'' = Some (str_val ''area'')" if "given size_column \<noteq> None"
    using m0 m3 that
    by (cases "given cc")
       (auto simp: ebind_eq_Inr map_of_dict_set Let_def)
  show ?thesis using marker color size by simp
qed

lemma trace_of_marker:
  assumes "trace_of L a grid sizeref t (cc, cs, sc, ct) category = Inr tr"
  shows "\<exists>m. trace_marker tr = Some m
     \<and> (given cc = None \<longrightarrow> map_of m ''color'' = None)
     \<and> (given (p_size_column a) \<noteq> None \<longrightarrow>
          map_of m ''sizeref'' = Some (case sizeref of None \<Rightarrow> Null | Some r \<Rightarrow> Sc (FloatC r))
          \<and> map_of m ''sizemode'' = Some (str_val ''area''))"
proof -
  from assms obtain trace where
    g: "getTrace L grid t (p_x_column a) (p_y_column a) (p_bubble_column a)
                 (p_z_column a) (p_size_column a) sizeref (p_scale_bubble a)
                 (p_marker_opacity a) (p_marker_border_width a)
                 cc cs sc ct category = Inr trace"
    and tr: "tr = with_type (p_z_column a) trace"
    unfolding trace_of_def by (auto simp: ebind_eq_Inr)
  have "trace_marker tr = (case map_of trace ''marker'' of Some (Obj m) \<Rightarrow> Some m | _ \<Rightarrow> None)"
    unfolding tr with_type_def trace_marker_def
    by (cases "given (p_z_column a)") (simp_all add: map_of_dict_set)
  then show ?thesis using getTrace_marker [OF g] by auto
qed

lemma made_by_marker:
  assumes "made_by L a grid sizeref color_column tr"
  shows "\<exists>m. trace_marker tr = Some m
     \<and> (given color_column = None \<longrightarrow> map_of m ''color'' = None)
     \<and> (given (p_size_column a) \<noteq> None \<longrightarrow>
          map_of m ''sizeref'' = Some (case sizeref of None \<Rightarrow> Null | Some r \<Rightarrow> Sc (FloatC r))
          \<and> map_of m ''sizemode'' = Some (str_val ''area''))"
proof -
  from assms obtain t cc cs sc ct category where
    tr: "trace_of L a grid sizeref t (cc, cs, sc, ct) category = Inr tr"
    and g: "given cc = given color_column"
    unfolding made_by_def by auto
  show ?thesis using trace_of_marker [OF tr] g by simp
qed

lemma bubbleplot_markers:
  assumes "bubbleplot L dataset a = Inr fig"
    and "classify_color dataset (p_color_column a) = Inr (category_column, color_column)"
    and "tr \<in> set (all_traces fig)"
  shows "\<exists>m sizeref. trace_marker tr = Some m
     \<and> bubble_sizeref dataset (p_size_column a) (p_scale_bubble a) = Inr sizeref
     \<and> (given color_column = None \<longrightarrow> map_of m ''color'' = None)
     \<and> (given (p_size_column a) \<noteq> None \<longrightarrow>
          map_of m ''sizeref'' = Some (case sizeref of None \<Rightarrow> Null | Some r \<Rightarrow> Sc (FloatC r))
          \<and> map_of m ''sizemode'' = Some (str_val ''area''))"
proof -
  from assms(1) obtain category_column' color_column' years show_slider show_button categories
    grid showlegend figure sliders_dict sizeref figure1 sliders_dict1 layout
    where cc: "classify_color dataset (p_color_column a) = Inr (category_column', color_column')"
      and sl: "setLayout (p_x_title a) (p_y_title a) (p_z_title a) (p_title a)
           (p_x_logscale a) (p_y_logscale a) (p_z_logscale a) (given (p_z_column a) \<noteq> None)
           show_slider (if show_slider then years else None) show_button showlegend
           (p_width a) (p_height a) = Inr (figure, sliders_dict)"
      and sr: "bubble_sizeref dataset (p_size_column a) (p_scale_bubble a) = Inr sizeref"
      and bt: "build_traces L a grid category_column' color_column' (the_default [] years)
           categories sizeref show_slider figure sliders_dict = Inr (figure1, sliders_dict1)"
      and fig: "fig = figure1\<lparr>fig_layout :=
              (if show_slider then dict_set layout ''sliders'' (Arr [Obj sliders_dict1])
               else layout)\<rparr>"
    by (rule bubbleplot_InrE)
  have same: "category_column' = category_column" "color_column' = color_column"
    using cc assms(2) by simp_all
  have excl: "given category_column = None \<or> given color_column = None"
    using classify_color_Inr [OF assms(2)] by auto
  have tr: "tr \<in> set (all_traces figure1)"
    using assms(3) fig by (simp add: all_traces_def)
  have "made_by L a grid sizeref color_column tr"
    using build_traces_made [OF bt setLayout_other(1,2) [OF sl] _ tr] excl same by simp
  from made_by_marker [OF this] obtain m where
    m: "trace_marker tr = Some m"
      "given color_column = None \<longrightarrow> map_of m ''color'' = None"
      "given (p_size_column a) \<noteq> None \<longrightarrow>
          map_of m ''sizeref'' = Some (case sizeref of None \<Rightarrow> Null | Some r \<Rightarrow> Sc (FloatC r))
          \<and> map_of m ''sizemode'' = Some (str_val ''area'')"
    by auto
  show ?thesis
    by (rule exI [of _ m], rule exI [of _ sizeref]) (use m sr in simp)
qed

lemma bubble_sizeref_value:
  assumes "given size_column = Some sc" and "get_col dataset sc = Inr c"
    and "numbers c = Some (map Fin rs)" and "rs \<noteq> []"
  shows "bubble_sizeref dataset size_column scale_bubble
           = (if np_mul (Fin scale_bubble) (80 ^ 2) = Fin 0 then Inl ZeroDivisionError
              else Inr (Some (np_div (np_mul (py_float (Fin (Max (set rs)))) 2)
                                (np_mul (Fin scale_bubble) (80 ^ 2)))))"
proof -
  have "cells c \<noteq> []" using numbers_length [OF assms(3)] assms(4) by auto
  then show ?thesis
    using assms unfolding bubble_sizeref_def
    by (simp add: py_max_Fin Let_def del: np_mul.simps py_float.simps)
qed

lemma remdups_snoc: "remdups (ys @ [x]) = filter (\<lambda>y. y \<noteq> x) (remdups ys) @ [x]"
  by (induction ys) auto

lemma unique_Cons: "unique (x # xs) = x # filter (\<lambda>y. y \<noteq> x) (unique xs)"
  by (simp add: unique_def remdups_snoc rev_filter)

lemma setRange_total:
  assumes "cells c \<noteq> []" and "numbers c = Some vs"
  shows "\<exists>r. setRange c lg = Inr r"
proof -
  have ne: "vs \<noteq> []" using numbers_length [OF assms(2)] assms(1) by auto
  then have ne': "map np_log10 vs \<noteq> []" by simp
  obtain lo hi where "py_min vs = Inr lo" "py_max vs = Inr hi"
    using py_min_total [OF ne] py_max_total [OF ne] by blast
  moreover obtain lo' hi' where "py_min (map np_log10 vs) = Inr lo'" "py_max (map np_log10 vs) = Inr hi'"
    using py_min_total [OF ne'] py_max_total [OF ne'] by blast
  ultimately show ?thesis using assms by (simp add: setRange_def)
qed

lemma axis_range_total:
  assumes "gr \<noteq> None \<or> (\<exists>c vs. get_col dataset n = Inr c \<and> cells c \<noteq> [] \<and> numbers c = Some vs)"
  shows "\<exists>r. axis_range dataset gr n lg = Inr r"
proof (cases gr)
  case (Some r)
  then show ?thesis by (simp add: axis_range_def)
next
  case None
  then obtain c vs where c: "get_col dataset n = Inr c" "cells c \<noteq> []" "numbers c = Some vs"
    using assms by auto
  obtain r where "setRange c lg = Inr r" using setRange_total [OF c(2,3)] by blast
  then show ?thesis using None c(1) by (simp add: axis_range_def)
qed

lemma set_range_2D:
  "map_of l ax = Some (Obj inner) \<Longrightarrow>
   set_range False l ax r = Inr (dict_set l ax (Obj (dict_set inner ''range'' r)))"
  by (simp add: set_range_def dict_set_in_def)

lemma set_range_3D:
  "map_of l ''scene'' = Some (Obj sc) \<Longrightarrow> map_of sc ax = Some (Obj inner) \<Longrightarrow>
   set_range True l ax r
     = Inr (dict_set l ''scene'' (Obj (dict_set sc ax (Obj (dict_set inner ''range'' r)))))"
  by (simp add: set_range_def dict_set_in_def)

lemma place_ranges_total:
  assumes x: "\<exists>r. axis_range dataset (p_x_range a) (p_x_column a) (p_x_logscale a) = Inr r"
    and y: "\<exists>r. axis_range dataset (p_y_range a) (p_y_column a) (p_y_logscale a) = Inr r"
    and z: "axes3D \<longrightarrow> (\<exists>r. axis_range dataset (p_z_range a) (the_default [] (p_z_column a))
                               (p_z_logscale a) = Inr r)"
    and l2: "\<not> axes3D \<longrightarrow> (\<exists>xa ya. map_of l ''xaxis'' = Some (Obj xa)
                               \<and> map_of l ''yaxis'' = Some (Obj ya))"
    and l3: "axes3D \<longrightarrow> (\<exists>sc xa ya za. map_of l ''scene'' = Some (Obj sc)
            \<and> map_of sc ''xaxis'' = Some (Obj xa) \<and> map_of sc ''yaxis'' = Some (Obj ya)
            \<and> map_of sc ''zaxis'' = Some (Obj za))"
  shows "\<exists>l'. place_ranges dataset a axes3D l = Inr l'"
proof -
  obtain xr yr where r: "axis_range dataset (p_x_range a) (p_x_column a) (p_x_logscale a) = Inr xr"
    "axis_range dataset (p_y_range a) (p_y_column a) (p_y_logscale a) = Inr yr"
    using x y by blast
  show ?thesis
  proof (cases axes3D)
    case False
    then obtain xa ya where "map_of l ''xaxis'' = Some (Obj xa)" "map_of l ''yaxis'' = Some (Obj ya)"
      using l2 by blast
    then show ?thesis
      using False r by (simp add: place_ranges_def set_range_2D map_of_dict_set)
  next
    case True
    then obtain zr sc xa ya za where
      "axis_range dataset (p_z_range a) (the_default [] (p_z_column a)) (p_z_logscale a) = Inr zr"
      "map_of l ''scene'' = Some (Obj sc)" "map_of sc ''xaxis'' = Some (Obj xa)"
      "map_of sc ''yaxis'' = Some (Obj ya)" "map_of sc ''zaxis'' = Some (Obj za)"
      using z l3 by blast
    then show ?thesis
      using True r by (simp add: place_ranges_def set_range_3D map_of_dict_set)
  qed
qed

lemma emap_map:
  "(\<And>x. x \<in> set xs \<Longrightarrow> f x = Inr (g x)) \<Longrightarrow> emap f xs = Inr (map g xs)"
  by (induction xs) simp_all

lemma grid_value_found:
  assumes "format_str t args = Inr k" and "(k, v) \<in> set g"
  shows "\<exists>v'. grid_value g t args = Inr v'"
proof -
  have "filter (\<lambda>row. fst row = k) g \<noteq> []"
    using assms(2) by (force simp: filter_empty_conv)
  then obtain row rest where "filter (\<lambda>row. fst row = k) g = row # rest"
    by (cases "filter (\<lambda>row. fst row = k) g") auto
  moreover have "g \<noteq> []" using assms(2) by auto
  ultimately show ?thesis using assms(1) by (simp add: grid_value_def)
qed

lemma format_tmpl1: "format_str tmpl1 (Lit n # rest) = Inr (n @ ''_grid'')"
  by (simp add: format_str_def tmpl1_def)


lemma getTrace_total:
  assumes x: "\<exists>v. grid_value g t [Lit x, category_arg L category] = Inr v"
    and y: "\<exists>v. grid_value g t [Lit y, category_arg L category] = Inr v"
    and b: "\<exists>v. grid_value g t [Lit b, category_arg L category] = Inr v"
    and z: "\<forall>zc. given z = Some zc \<longrightarrow> (\<exists>v. grid_value g t [Lit zc, category_arg L category] = Inr v)"
    and s: "\<forall>sc. given szc = Some sc \<longrightarrow> (\<exists>v. grid_value g t [Lit sc, category_arg L category] = Inr v)"
    and c: "\<forall>cc. given color = Some cc \<longrightarrow> (\<exists>v. grid_value g t [Lit cc] = Inr v)"
  shows "\<exists>tr. getTrace L g t x y b z szc sizeref scale opacity border color cs scb ct category
           = Inr tr"
proof -
  obtain vx vy vb where v: "grid_value g t [Lit x, category_arg L category] = Inr vx"
    "grid_value g t [Lit y, category_arg L category] = Inr vy"
    "grid_value g t [Lit b, category_arg L category] = Inr vb"
    using x y b by blast
  have z': "\<exists>tr1. (case given z of
              None \<Rightarrow> Inr tr0
            | Some zc \<Rightarrow>
                ebind (grid_value g t [Lit zc, category_arg L category])
                  (\<lambda>z. Inr (dict_set tr0 ''z'' (cells_val z)))) = Inr tr1" for tr0
    using z by (cases "given z") auto
  have s': "\<exists>m0. (case given szc of
              Some sc \<Rightarrow>
                ebind (grid_value g t [Lit sc, category_arg L category])
                  (\<lambda>size. Inr [(''sizemode'', str_val ''area''),
                                (''sizeref'', (case sizeref of None \<Rightarrow> Null
                                               | Some r \<Rightarrow> Sc (FloatC r))),
                                (''size'', cells_val size)])
            | None \<Rightarrow> Inr [(''size'', Sc (FloatC (np_mul (Fin scale) 10)))]) = Inr m0"
    using s by (cases "given szc") auto
  have c': "\<exists>m3. (case given color of
              None \<Rightarrow> Inr m2
            | Some cc \<Rightarrow>
                ebind (grid_value g t [Lit cc]) (\<lambda>color.
                  Inr (dict_set
                         (dict_set (dict_set m2 ''color'' (cells_val color))
                            ''colorbar'' (Obj [(''title'', opt_str ct)]))
                         ''colorscale'' (opt_str cs)))) = Inr m3" for m2
    using c by (cases "given color") auto
  obtain tr1 where tr1: "(case given z of
              None \<Rightarrow> Inr [(''x'', cells_val vx), (''y'', cells_val vy), (''text'', cells_val vb),
                   (''mode'', str_val ''markers'')]
            | Some zc \<Rightarrow>
                ebind (grid_value g t [Lit zc, category_arg L category])
                  (\<lambda>z. Inr (dict_set [(''x'', cells_val vx), (''y'', cells_val vy), (''text'', cells_val vb),
                   (''mode'', str_val ''markers'')] ''z'' (cells_val z)))) = Inr tr1"
    using z' by blast
  obtain m0 where m0: "(case given szc of
              Some sc \<Rightarrow>
                ebind (grid_value g t [Lit sc, category_arg L category])
                  (\<lambda>size. Inr [(''sizemode'', str_val ''area''),
                                (''sizeref'', (case sizeref of None \<Rightarrow> Null
                                               | Some r \<Rightarrow> Sc (FloatC r))),
                                (''size'', cells_val size)])
            | None \<Rightarrow> Inr [(''size'', Sc (FloatC (np_mul (Fin scale) 10)))]) = Inr m0"
    using s' by blast
  show ?thesis
    unfolding getTrace_def Let_def
    using c' by (simp add: v tr1 m0 ebind_eq_Inr)
qed

lemma trace_of_total:
  assumes "\<exists>tr. getTrace L g t (p_x_column a) (p_y_column a) (p_bubble_column a)
                 (p_z_column a) (p_size_column a) sizeref (p_scale_bubble a)
                 (p_marker_opacity a) (p_marker_border_width a)
                 cc cs sc ct category = Inr tr"
  shows "\<exists>tr. trace_of L a g sizeref t (cc, cs, sc, ct) category = Inr tr"
  using assms by (auto simp: trace_of_def)

lemma setLayout_no_controls:
  "setLayout xt yt zt t xl yl zl axes3D False None False sl w h
     = Inr (layout_base xt yt zt t xl yl zl axes3D sl w h, [])"
  by (simp add: setLayout_def)

lemma bubbleplot_total_plain:
  assumes nt: "given (p_time_column a) = None" and nc: "given (p_color_column a) = None"
    and ns: "given (p_size_column a) = None"
    and cols: "\<forall>n\<in>set (needed_columns (p_x_column a) (p_y_column a) (p_bubble_column a)
                          (p_z_column a) (p_size_column a) (p_color_column a)).
                 \<exists>c. get_col dataset n = Inr c"
    and x: "\<exists>r. axis_range dataset (p_x_range a) (p_x_column a) (p_x_logscale a) = Inr r"
    and y: "\<exists>r. axis_range dataset (p_y_range a) (p_y_column a) (p_y_logscale a) = Inr r"
    and z: "given (p_z_column a) \<noteq> None \<longrightarrow>
              (\<exists>r. axis_range dataset (p_z_range a) (the_default [] (p_z_column a))
                      (p_z_logscale a) = Inr r)"
  shows "\<exists>fig. bubbleplot L dataset a = Inr fig"
proof -
  let ?cols = "needed_columns (p_x_column a) (p_y_column a) (p_bubble_column a)
                 (p_z_column a) (p_size_column a) (p_color_column a)"
  let ?row = "\<lambda>n. (n @ ''_grid'', cells (projr (get_col dataset n)))"
  let ?g = "map ?row ?cols"
  let ?sl = "case p_show_legend a of None \<Rightarrow> False | Some b \<Rightarrow> b"
  let ?b = "layout_base (p_x_title a) (p_y_title a) (p_z_title a) (p_title a)
              (p_x_logscale a) (p_y_logscale a) (p_z_logscale a) (given (p_z_column a) \<noteq> None)
              ?sl (p_width a) (p_height a)"
  have cl: "classify_color dataset (p_color_column a) = Inr (None, p_color_column a)"
    using nc by (simp add: classify_color_def)
  have tp: "time_points dataset (p_time_column a) (p_show_slider a) (p_show_button a)
              = Inr (None, False, False)"
    using nt by (simp add: time_points_def)
  have "emap (\<lambda>n. ebind (get_col dataset n) (\<lambda>c. Inr (n @ ''_grid'', cells c))) ?cols = Inr ?g"
    by (rule emap_map) (use cols in auto)
  then have mg: "makeGrid L dataset ?cols (p_time_column a) None = Inr ?g"
    using nt by (simp add: makeGrid_def)
  have bg: "build_grid L dataset ?cols (p_time_column a) None None (p_show_legend a)
              = Inr ([], ?g, ?sl)"
    using mg by (simp add: build_grid_def)
  have look: "\<exists>v. grid_value ?g tmpl1 [Lit n, category_arg L None] = Inr v"
    if "n \<in> set ?cols" for n
  proof -
    have "?row n \<in> set ?g" using that by simp
    then show ?thesis
      using grid_value_found [OF format_tmpl1, where g = ?g] by blast
  qed
  have in_cols: "p_x_column a \<in> set ?cols" "p_y_column a \<in> set ?cols"
    "p_bubble_column a \<in> set ?cols"
    "\<And>zc. given (p_z_column a) = Some zc \<Longrightarrow> zc \<in> set ?cols"
    by (auto simp: needed_columns_def split: option.splits)
  have "\<exists>tr. getTrace L ?g tmpl1 (p_x_column a) (p_y_column a) (p_bubble_column a)
                 (p_z_column a) (p_size_column a) None (p_scale_bubble a)
                 (p_marker_opacity a) (p_marker_border_width a)
                 (p_color_column a) (p_colorscale a) (p_show_colorbar a) (p_colorbar_title a)
                 None = Inr tr"
    by (rule getTrace_total) (use look in_cols ns nc in auto)
  then obtain tr where tr: "trace_of L a ?g None tmpl1
      (p_color_column a, p_colorscale a, p_show_colorbar a, p_colorbar_title a) None = Inr tr"
    using trace_of_total by blast
  have bt: "build_traces L a ?g None (p_color_column a) [] [] None False ?b []
              = Inr (?b\<lparr>fig_data := fig_data ?b @ [tr]\<rparr>, [])"
    using nt tr by (simp add: build_traces_def)
  have sr: "bubble_sizeref dataset (p_size_column a) (p_scale_bubble a) = Inr None"
    using ns by (simp add: bubble_sizeref_def)
  have "\<exists>l'. place_ranges dataset a (given (p_z_column a) \<noteq> None) (fig_layout ?b) = Inr l'"
  proof (rule place_ranges_total [OF x y z])
    show "\<not> given (p_z_column a) \<noteq> None \<longrightarrow>
      (\<exists>xa ya. map_of (fig_layout ?b) ''xaxis'' = Some (Obj xa)
         \<and> map_of (fig_layout ?b) ''yaxis'' = Some (Obj ya))"
      using layout_base_axes2D by auto
    show "given (p_z_column a) \<noteq> None \<longrightarrow>
      (\<exists>sc xa ya za. map_of (fig_layout ?b) ''scene'' = Some (Obj sc)
            \<and> map_of sc ''xaxis'' = Some (Obj xa) \<and> map_of sc ''yaxis'' = Some (Obj ya)
            \<and> map_of sc ''zaxis'' = Some (Obj za))"
      using layout_base_axes3D by auto
  qed
  then obtain l' where pr: "place_ranges dataset a (given (p_z_column a) \<noteq> None) (fig_layout ?b) = Inr l'"
    by blast
  show ?thesis
    unfolding bubbleplot_def Let_def
    by (simp add: cl tp bg setLayout_no_controls sr bt pr del: not_None_eq)
qed

lemma plottable_range:
  "plottable dataset gr n \<Longrightarrow> \<exists>r. axis_range dataset gr n lg = Inr r"
  by (rule axis_range_total) (auto simp: plottable_def get_col_def split: option.splits)

section \<open>The Grid Builder against the rows of the dataset\<close>

lemma zip_as_map:
  "length xs = length ys \<Longrightarrow> zip xs ys = map (\<lambda>i. (xs ! i, ys ! i)) [0..<length ys]"
  by (rule nth_equalityI) auto

lemma select_by_index:
  assumes "length msk = length ys" and "\<And>i. i < length ys \<Longrightarrow> msk ! i = Q i"
  shows "select msk ys = map ((!) ys) (filter Q [0..<length ys])"
proof -
  have "filter (\<lambda>i. msk ! i) [0..<length ys] = filter Q [0..<length ys]"
    by (rule filter_cong) (use assms(2) in auto)
  then show ?thesis
    by (simp add: select_def zip_as_map [OF assms(1)] filter_map comp_def)
qed

lemma spec_filtered_index:
  "spec_filtered dataset keep col_name
     = map ((!) (col_cells dataset col_name))
         (filter (\<lambda>i. keep (\<lambda>name. col_cells dataset name ! i)) [0..<nrows dataset])"
  by (simp add: spec_filtered_def spec_rows_def filter_map comp_def)

lemma get_col_cells:
  "get_col dataset name = Inr c \<Longrightarrow> col_cells dataset name = cells c"
  by (auto simp: get_col_def col_cells_def split: option.splits)

lemma get_col_length:
  "rectangular dataset \<Longrightarrow> get_col dataset name = Inr c \<Longrightarrow> length (cells c) = nrows dataset"
  by (auto simp: get_col_def rectangular_def split: option.splits dest!: map_of_SomeD)

lemma select_spec:
  assumes "rectangular dataset" and "get_col dataset col_name = Inr c"
    and "length msk = nrows dataset"
    and "\<And>i. i < nrows dataset \<Longrightarrow> msk ! i = keep (\<lambda>name. col_cells dataset name ! i)"
  shows "select msk (cells c) = spec_filtered dataset keep col_name"
proof -
  have len: "length (cells c) = nrows dataset" using assms(1,2) by (rule get_col_length)
  show ?thesis
    using select_by_index [of msk "cells c" "\<lambda>i. keep (\<lambda>name. col_cells dataset name ! i)"]
      assms(3,4) len
    by (simp add: spec_filtered_index get_col_cells [OF assms(2)])
qed

lemma emap_eq_map:
  "emap f xs = Inr ys \<Longrightarrow> (\<And>x y. x \<in> set xs \<Longrightarrow> f x = Inr y \<Longrightarrow> y = h x) \<Longrightarrow> ys = map h xs"
  by (induction xs arbitrary: ys) (auto simp: ebind_eq_Inr)

lemma grid_rows_spec:
  assumes "grid_rows dataset msk key column_names = Inr r"
    and "rectangular dataset" and "length msk = nrows dataset"
    and "\<And>i. i < nrows dataset \<Longrightarrow> msk ! i = keep (\<lambda>name. col_cells dataset name ! i)"
    and "\<And>col_name. key col_name = Inr (k col_name)"
  shows "r = spec_entries dataset k keep column_names"
proof -
  from assms(1) obtain rows where
    rows: "emap (\<lambda>col_name.
              ebind (key col_name) (\<lambda>temp.
              ebind (get_col dataset col_name) (\<lambda>c.
                let vs = select msk (cells c)
                in Inr (if vs \<noteq> [] then [(temp, vs)] else []))))
            column_names = Inr rows"
    and r: "r = concat rows"
    by (auto simp: grid_rows_def ebind_eq_Inr)
  have "rows = map (\<lambda>col_name.
                    let vs = spec_filtered dataset keep col_name
                    in if vs = [] then [] else [(k col_name, vs)]) column_names"
  proof (rule emap_eq_map [OF rows])
    fix col_name y
    assume "ebind (key col_name) (\<lambda>temp.
              ebind (get_col dataset col_name) (\<lambda>c.
                let vs = select msk (cells c)
                in Inr (if vs \<noteq> [] then [(temp, vs)] else []))) = Inr y"
    then obtain c where c: "get_col dataset col_name = Inr c"
      and y: "y = (let vs = select msk (cells c) in if vs \<noteq> [] then [(k col_name, vs)] else [])"
      by (auto simp: ebind_eq_Inr assms(5) Let_def)
    have eq: "select msk (cells c) = spec_filtered dataset keep col_name"
      by (rule select_spec [OF assms(2) c assms(3)]) (rule assms(4))
    show "y = (let vs = spec_filtered dataset keep col_name
               in if vs = [] then [] else [(k col_name, vs)])"
      unfolding y by (simp add: eq Let_def)
  qed
  then show ?thesis by (simp add: r spec_entries_def)
qed

lemma format_key2: "format_str tmpl2 [Lit a, Lit b] = Inr (key2 a b)"
  by (simp add: format_str_def tmpl2_def key2_def)

lemma format_key3: "format_str tmpl3 [Lit a, Lit b, Lit c] = Inr (key3 a b c)"
  by (simp add: format_str_def tmpl3_def key3_def)

lemma the_years:
  "(case years of None \<Rightarrow> ebind (get_col dataset tc) (\<lambda>c. Inr (unique (cells c)))
                | Some ys \<Rightarrow> Inr ys) = Inr ys' \<Longrightarrow>
   ys' = (case years of None \<Rightarrow> unique (col_cells dataset tc) | Some ys \<Rightarrow> ys)"
  by (auto simp: ebind_eq_Inr get_col_cells split: option.splits)

lemma makeGrid_plain_spec:
  assumes "makeGrid L dataset column_names time_column years = Inr g"
    and "given time_column = None"
  shows "g = map (\<lambda>col_name. (col_name @ ''_grid'', col_cells dataset col_name)) column_names"
proof -
  from assms have
    "emap (\<lambda>col_name. ebind (get_col dataset col_name) (\<lambda>c. Inr (col_name @ ''_grid'', cells c)))
       column_names = Inr g"
    by (simp add: makeGrid_def)
  then show ?thesis
    by (rule emap_eq_map) (auto simp: ebind_eq_Inr get_col_cells)
qed

lemma makeGrid_time_spec:
  assumes "makeGrid L dataset column_names time_column years = Inr g"
    and "given time_column = Some tc" and "rectangular dataset"
  shows "g = concat (map (\<lambda>year.
               spec_entries dataset (key2 (py_str L year)) (time_is L tc year) column_names)
             (case years of None \<Rightarrow> unique (col_cells dataset tc) | Some ys \<Rightarrow> ys))"
proof -
  let ?ys = "case years of None \<Rightarrow> unique (col_cells dataset tc) | Some ys \<Rightarrow> ys"
  let ?body = "\<lambda>year.
                   ebind (get_col dataset tc) (\<lambda>t.
                   ebind (py_int L year) (\<lambda>i.
                     grid_rows dataset (map (\<lambda>c. cell_eq c (IntC i)) (cells t))
                       (\<lambda>col_name. format_str tmpl2 [Lit (py_str L year), Lit col_name])
                       column_names))"
  from assms(1,2) obtain ys rows where
    ys: "(case years of None \<Rightarrow> ebind (get_col dataset tc) (\<lambda>c. Inr (unique (cells c)))
                | Some ys \<Rightarrow> Inr ys) = Inr ys"
    and rows: "emap ?body ys = Inr rows" and g: "g = concat rows"
    by (auto simp: makeGrid_def ebind_eq_Inr)
  have ys': "ys = ?ys" using ys by (rule the_years)
  have "rows = map (\<lambda>year.
               spec_entries dataset (key2 (py_str L year)) (time_is L tc year) column_names) ys"
  proof (rule emap_eq_map [OF rows])
    fix year r
    assume "?body year = Inr r"
    then obtain t i where t: "get_col dataset tc = Inr t" and i: "py_int L year = Inr i"
      and r: "grid_rows dataset (map (\<lambda>c. cell_eq c (IntC i)) (cells t))
                (\<lambda>col_name. format_str tmpl2 [Lit (py_str L year), Lit col_name])
                column_names = Inr r"
      by (auto simp: ebind_eq_Inr)
    have len: "length (cells t) = nrows dataset" using assms(3) t by (rule get_col_length)
    show "r = spec_entries dataset (key2 (py_str L year)) (time_is L tc year) column_names"
    proof (rule grid_rows_spec [OF r assms(3)])
      show "length (map (\<lambda>c. cell_eq c (IntC i)) (cells t)) = nrows dataset"
        using len by simp
      show "map (\<lambda>c. cell_eq c (IntC i)) (cells t) ! j
              = time_is L tc year (\<lambda>name. col_cells dataset name ! j)"
        if "j < nrows dataset" for j
        using that len by (simp add: time_is_def i get_col_cells [OF t])
      show "format_str tmpl2 [Lit (py_str L year), Lit col_name]
              = Inr (key2 (py_str L year) col_name)" for col_name
        by (rule format_key2)
    qed
  qed
  then show ?thesis by (simp add: g ys')
qed

lemma makeGridWithCategories_spec:
  assumes "makeGridWithCategories L dataset column_names time_column cc years categories = Inr g"
    and "rectangular dataset"
  shows "given time_column = None \<longrightarrow>
         g = concat (map (\<lambda>category.
               spec_entries dataset (\<lambda>col_name. key2 col_name (py_str L category))
                 (category_is cc category) column_names)
             (case categories of None \<Rightarrow> unique (col_cells dataset cc) | Some cs \<Rightarrow> cs))"
    and "\<forall>tc. given time_column = Some tc \<longrightarrow>
         g = concat (map (\<lambda>year. concat (map (\<lambda>category.
               spec_entries dataset (\<lambda>col_name. key3 (py_str L year) col_name (py_str L category))
                 (\<lambda>row. time_is L tc year row \<and> category_is cc category row) column_names)
               (case categories of None \<Rightarrow> unique (col_cells dataset cc) | Some cs \<Rightarrow> cs)))
             (case years of None \<Rightarrow> unique (col_cells dataset tc) | Some ys \<Rightarrow> ys))"
proof -
  let ?cs = "case categories of None \<Rightarrow> unique (col_cells dataset cc) | Some cs \<Rightarrow> cs"
  from assms(1) obtain cs where
    cs: "(case categories of None \<Rightarrow> ebind (get_col dataset cc) (\<lambda>c. Inr (unique (cells c)))
            | Some cs \<Rightarrow> Inr cs) = Inr cs"
    and rest: "(case given time_column of
       Some tc \<Rightarrow>
         ebind (case years of
                  None \<Rightarrow> ebind (get_col dataset tc) (\<lambda>c. Inr (unique (cells c)))
                | Some ys \<Rightarrow> Inr ys) (\<lambda>ys.
         ebind (emap (\<lambda>year.
                  ebind (emap (\<lambda>category.
                           ebind (get_col dataset tc) (\<lambda>t.
                           ebind (py_int L year) (\<lambda>i.
                           ebind (get_col dataset cc) (\<lambda>g.
                             grid_rows dataset
                               (map (\<lambda>(a, b). cell_eq a (IntC i) \<and> cell_eq b category)
                                  (zip (cells t) (cells g)))
                               (\<lambda>col_name. format_str tmpl3
                                  [Lit (py_str L year), Lit col_name, Lit (py_str L category)])
                               column_names))))
                         cs)
                    (\<lambda>rows. Inr (concat rows)))
                ys)
           (\<lambda>rows. Inr (concat rows)))
     | None \<Rightarrow>
         ebind (emap (\<lambda>category.
                  ebind (get_col dataset cc) (\<lambda>g.
                    grid_rows dataset (map (\<lambda>b. cell_eq b category) (cells g))
                      (\<lambda>col_name. format_str tmpl2 [Lit col_name, Lit (py_str L category)])
                      column_names))
                cs)
           (\<lambda>rows. Inr (concat rows))) = Inr g"
    unfolding makeGridWithCategories_def by (auto simp: ebind_eq_Inr)
  have cs': "cs = ?cs" using cs by (rule the_years)
  show "given time_column = None \<longrightarrow>
         g = concat (map (\<lambda>category.
               spec_entries dataset (\<lambda>col_name. key2 col_name (py_str L category))
                 (category_is cc category) column_names) ?cs)"
  proof
    assume nt: "given time_column = None"
    let ?body = "\<lambda>category.
                  ebind (get_col dataset cc) (\<lambda>g.
                    grid_rows dataset (map (\<lambda>b. cell_eq b category) (cells g))
                      (\<lambda>col_name. format_str tmpl2 [Lit col_name, Lit (py_str L category)])
                      column_names)"
    from rest nt obtain rows where rows: "emap ?body cs = Inr rows" and g: "g = concat rows"
      by (auto simp: ebind_eq_Inr)
    have "rows = map (\<lambda>category.
               spec_entries dataset (\<lambda>col_name. key2 col_name (py_str L category))
                 (category_is cc category) column_names) cs"
    proof (rule emap_eq_map [OF rows])
      fix category r
      assume "?body category = Inr r"
      then obtain gc where gc: "get_col dataset cc = Inr gc"
        and r: "grid_rows dataset (map (\<lambda>b. cell_eq b category) (cells gc))
                  (\<lambda>col_name. format_str tmpl2 [Lit col_name, Lit (py_str L category)])
                  column_names = Inr r"
        by (auto simp: ebind_eq_Inr)
      have len: "length (cells gc) = nrows dataset" using assms(2) gc by (rule get_col_length)
      show "r = spec_entries dataset (\<lambda>col_name. key2 col_name (py_str L category))
                 (category_is cc category) column_names"
      proof (rule grid_rows_spec [OF r assms(2)])
        show "length (map (\<lambda>b. cell_eq b category) (cells gc)) = nrows dataset"
          using len by simp
        show "map (\<lambda>b. cell_eq b category) (cells gc) ! j
                = category_is cc category (\<lambda>name. col_cells dataset name ! j)"
          if "j < nrows dataset" for j
          using that len by (simp add: category_is_def get_col_cells [OF gc])
        show "format_str tmpl2 [Lit col_name, Lit (py_str L category)]
                = Inr (key2 col_name (py_str L category))" for col_name
          by (rule format_key2)
      qed
    qed
    then show "g = concat (map (\<lambda>category.
               spec_entries dataset (\<lambda>col_name. key2 col_name (py_str L category))
                 (category_is cc category) column_names) ?cs)"
      by (simp add: g cs')
  qed
  show "\<forall>tc. given time_column = Some tc \<longrightarrow>
         g = concat (map (\<lambda>year. concat (map (\<lambda>category.
               spec_entries dataset (\<lambda>col_name. key3 (py_str L year) col_name (py_str L category))
                 (\<lambda>row. time_is L tc year row \<and> category_is cc category row) column_names)
               ?cs))
             (case years of None \<Rightarrow> unique (col_cells dataset tc) | Some ys \<Rightarrow> ys))"
  proof (intro allI impI)
    fix tc
    assume t: "given time_column = Some tc"
    let ?ys = "case years of None \<Rightarrow> unique (col_cells dataset tc) | Some ys \<Rightarrow> ys"
    let ?inner = "\<lambda>year category.
                           ebind (get_col dataset tc) (\<lambda>t.
                           ebind (py_int L year) (\<lambda>i.
                           ebind (get_col dataset cc) (\<lambda>g.
                             grid_rows dataset
                               (map (\<lambda>(a, b). cell_eq a (IntC i) \<and> cell_eq b category)
                                  (zip (cells t) (cells g)))
                               (\<lambda>col_name. format_str tmpl3
                                  [Lit (py_str L year), Lit col_name, Lit (py_str L category)])
                               column_names)))"
    let ?outer = "\<lambda>year. ebind (emap (?inner year) cs) (\<lambda>rows. Inr (concat rows))"
    from rest t obtain ys rows where
      ys: "(case years of None \<Rightarrow> ebind (get_col dataset tc) (\<lambda>c. Inr (unique (cells c)))
                | Some ys \<Rightarrow> Inr ys) = Inr ys"
      and rows: "emap ?outer ys = Inr rows" and g: "g = concat rows"
      by (auto simp: ebind_eq_Inr)
    have ys': "ys = ?ys" using ys by (rule the_years)
    have "rows = map (\<lambda>year. concat (map (\<lambda>category.
               spec_entries dataset (\<lambda>col_name. key3 (py_str L year) col_name (py_str L category))
                 (\<lambda>row. time_is L tc year row \<and> category_is cc category row) column_names)
               cs)) ys"
    proof (rule emap_eq_map [OF rows])
      fix year r
      assume "?outer year = Inr r"
      then obtain rs where rs: "emap (?inner year) cs = Inr rs" and r: "r = concat rs"
        by (auto simp: ebind_eq_Inr)
      have "rs = map (\<lambda>category.
               spec_entries dataset (\<lambda>col_name. key3 (py_str L year) col_name (py_str L category))
                 (\<lambda>row. time_is L tc year row \<and> category_is cc category row) column_names) cs"
      proof (rule emap_eq_map [OF rs])
        fix category e
        assume "?inner year category = Inr e"
        then obtain tcol i gc where tcol: "get_col dataset tc = Inr tcol"
          and i: "py_int L year = Inr i" and gc: "get_col dataset cc = Inr gc"
          and e: "grid_rows dataset
                    (map (\<lambda>(a, b). cell_eq a (IntC i) \<and> cell_eq b category)
                       (zip (cells tcol) (cells gc)))
                    (\<lambda>col_name. format_str tmpl3
                       [Lit (py_str L year), Lit col_name, Lit (py_str L category)])
                    column_names = Inr e"
          by (auto simp: ebind_eq_Inr)
        have len: "length (cells tcol) = nrows dataset" "length (cells gc) = nrows dataset"
          using assms(2) tcol gc by (auto intro: get_col_length)
        show "e = spec_entries dataset
                 (\<lambda>col_name. key3 (py_str L year) col_name (py_str L category))
                 (\<lambda>row. time_is L tc year row \<and> category_is cc category row) column_names"
        proof (rule grid_rows_spec [OF e assms(2)])
          show "length (map (\<lambda>(a, b). cell_eq a (IntC i) \<and> cell_eq b category)
                       (zip (cells tcol) (cells gc))) = nrows dataset"
            using len by simp
          show "map (\<lambda>(a, b). cell_eq a (IntC i) \<and> cell_eq b category)
                       (zip (cells tcol) (cells gc)) ! j
                  = (time_is L tc year (\<lambda>name. col_cells dataset name ! j)
                     \<and> category_is cc category (\<lambda>name. col_cells dataset name ! j))"
            if "j < nrows dataset" for j
            using that len
            by (simp add: time_is_def category_is_def i get_col_cells [OF tcol]
                get_col_cells [OF gc])
          show "format_str tmpl3 [Lit (py_str L year), Lit col_name, Lit (py_str L category)]
                  = Inr (key3 (py_str L year) col_name (py_str L category))" for col_name
            by (rule format_key3)
        qed
      qed
      then show "r = concat (map (\<lambda>category.
               spec_entries dataset (\<lambda>col_name. key3 (py_str L year) col_name (py_str L category))
                 (\<lambda>row. time_is L tc year row \<and> category_is cc category row) column_names)
               cs)"
        by (simp add: r)
    qed
    then show "g = concat (map (\<lambda>year. concat (map (\<lambda>category.
               spec_entries dataset (\<lambda>col_name. key3 (py_str L year) col_name (py_str L category))
                 (\<lambda>row. time_is L tc year row \<and> category_is cc category row) column_names)
               ?cs)) ?ys)"
      by (simp add: g ys' cs')
  qed
qed

lemma spec_entries_nonempty: "(k, vs) \<in> set (spec_entries dataset key keep cols) \<Longrightarrow> vs \<noteq> []"
  by (auto simp: spec_entries_def Let_def split: if_splits)

section \<open>The figure returned by the orchestrator\<close>

text \<open>
  Claim C10. When \<open>show_legend\<close> is left at \<open>None\<close>, the \<open>showlegend\<close> field of the
  returned layout is true exactly when a category column was derived from the color
  column; when \<open>show_legend\<close> is supplied, its value is stored as it is.
\<close>

theorem showlegend_default:
  assumes "bubbleplot L dataset a = Inr fig"
    and "classify_color dataset (p_color_column a) = Inr (category_column, color_column)"
  shows "map_of (fig_layout fig) ''showlegend''
           = Some (bool_val (case p_show_legend a of
                               None \<Rightarrow> category_column \<noteq> None
                             | Some b \<Rightarrow> b))"
  using assms by (rule bubbleplot_layout(1))

text \<open>With the text column \<open>country\<close> as color column the legend is shown by default.\<close>

theorem showlegend_default_witness:
  "\<exists>fig. bubbleplot example_lib example_dataset
            ((default_args ''gdp'' ''pop'' ''country'')\<lparr>p_color_column := Some ''country''\<rparr>)
          = Inr fig
        \<and> map_of (fig_layout fig) ''showlegend'' = Some (bool_val True)"
proof -
  let ?a = "(default_args ''gdp'' ''pop'' ''country'')\<lparr>p_color_column := Some ''country''\<rparr>"
  have "\<exists>fig. bubbleplot example_lib example_dataset ?a = Inr fig"
    by (simp add: model_defs example_defs)
  then obtain fig where f: "bubbleplot example_lib example_dataset ?a = Inr fig" ..
  have c: "classify_color example_dataset (p_color_column ?a) = Inr (Some ''country'', None)"
    by (simp add: classify_color_def get_col_def example_defs)
  show ?thesis
    using showlegend_default [OF f c] f by (simp add: default_args_def)
qed


text \<open>
  Claim C9, as the code has it. The layout has the key \<open>width\<close> exactly when a width
  other than 0 was given, and then its value is that width; likewise for \<open>height\<close>. This
  holds for the layout returned by \<open>bubbleplot\<close> and for the one returned by
  \<open>setLayout\<close>.
\<close>

theorem size_keys:
  "(bubbleplot L dataset a = Inr fig \<longrightarrow>
      (''width'' \<in> set (dict_keys (fig_layout fig)) \<longleftrightarrow> (\<exists>w. p_width a = Some w \<and> w \<noteq> 0))
      \<and> (''height'' \<in> set (dict_keys (fig_layout fig)) \<longleftrightarrow> (\<exists>h. p_height a = Some h \<and> h \<noteq> 0))
      \<and> (\<forall>w. p_width a = Some w \<longrightarrow> w \<noteq> 0 \<longrightarrow>
             map_of (fig_layout fig) ''width'' = Some (int_val w))
      \<and> (\<forall>h. p_height a = Some h \<longrightarrow> h \<noteq> 0 \<longrightarrow>
             map_of (fig_layout fig) ''height'' = Some (int_val h)))
   \<and> (setLayout xt yt zt t xl yl zl axes3D show_slider slider_scale show_button show_legend
         width height = Inr (figure, sd) \<longrightarrow>
      (''width'' \<in> set (dict_keys (fig_layout figure)) \<longleftrightarrow> (\<exists>w. width = Some w \<and> w \<noteq> 0))
      \<and> (''height'' \<in> set (dict_keys (fig_layout figure)) \<longleftrightarrow> (\<exists>h. height = Some h \<and> h \<noteq> 0)))"
proof (intro conjI impI)
  assume b: "bubbleplot L dataset a = Inr fig"
  then obtain category_column color_column
    where c: "classify_color dataset (p_color_column a) = Inr (category_column, color_column)"
    by (rule bubbleplot_InrE)
  note w = bubbleplot_layout(2) [OF b c] and h = bubbleplot_layout(3) [OF b c]
  show "''width'' \<in> set (dict_keys (fig_layout fig)) \<longleftrightarrow> (\<exists>w. p_width a = Some w \<and> w \<noteq> 0)"
    using w by (auto simp: dict_key_iff split: option.splits if_splits)
  show "''height'' \<in> set (dict_keys (fig_layout fig)) \<longleftrightarrow> (\<exists>h. p_height a = Some h \<and> h \<noteq> 0)"
    using h by (auto simp: dict_key_iff split: option.splits if_splits)
  show "\<forall>w. p_width a = Some w \<longrightarrow> w \<noteq> 0 \<longrightarrow> map_of (fig_layout fig) ''width'' = Some (int_val w)"
    using w by simp
  show "\<forall>h. p_height a = Some h \<longrightarrow> h \<noteq> 0 \<longrightarrow> map_of (fig_layout fig) ''height'' = Some (int_val h)"
    using h by simp
next
  assume s: "setLayout xt yt zt t xl yl zl axes3D show_slider slider_scale show_button show_legend
         width height = Inr (figure, sd)"
  have w: "map_of (fig_layout figure) ''width''
      = (case width of None \<Rightarrow> None | Some w \<Rightarrow> if w \<noteq> 0 then Some (int_val w) else None)"
    using setLayout_other(3) [OF s, of "''width''"] by (simp add: layout_base_width)
  have h: "map_of (fig_layout figure) ''height''
      = (case height of None \<Rightarrow> None | Some h \<Rightarrow> if h \<noteq> 0 then Some (int_val h) else None)"
    using setLayout_other(3) [OF s, of "''height''"] by (simp add: layout_base_height)
  show "''width'' \<in> set (dict_keys (fig_layout figure)) \<longleftrightarrow> (\<exists>w. width = Some w \<and> w \<noteq> 0)"
    using w by (auto simp: dict_key_iff split: option.splits if_splits)
  show "''height'' \<in> set (dict_keys (fig_layout figure)) \<longleftrightarrow> (\<exists>h. height = Some h \<and> h \<noteq> 0)"
    using h by (auto simp: dict_key_iff split: option.splits if_splits)
qed

text \<open>A width of 800 is stored; no height was given and the key is absent.\<close>

theorem size_keys_witness:
  "\<exists>fig. bubbleplot example_lib example_dataset
            ((default_args ''gdp'' ''pop'' ''country'')\<lparr>p_width := Some 800\<rparr>) = Inr fig
        \<and> ''width'' \<in> set (dict_keys (fig_layout fig))
        \<and> ''height'' \<notin> set (dict_keys (fig_layout fig))
        \<and> map_of (fig_layout fig) ''width'' = Some (int_val 800)"
proof -
  let ?a = "(default_args ''gdp'' ''pop'' ''country'')\<lparr>p_width := Some 800\<rparr>"
  have "\<exists>fig. bubbleplot example_lib example_dataset ?a = Inr fig"
    by (simp add: model_defs example_defs)
  then obtain fig where f: "bubbleplot example_lib example_dataset ?a = Inr fig" ..
  show ?thesis
    using size_keys [of example_lib example_dataset ?a fig] f
    by (simp add: default_args_def)
qed

text \<open>
  A width and a height of 0 are given by the caller and the layout has neither key: the
  conditions \<open>if width:\<close> and \<open>if height:\<close> test the value.
\<close>

theorem size_keys_counterexample:
  "map_sum id (dict_keys \<circ> fig_layout)
     (bubbleplot example_lib example_dataset
        ((default_args ''gdp'' ''pop'' ''country'')\<lparr>p_width := Some 0, p_height := Some 0\<rparr>))
   = Inr [''xaxis'', ''yaxis'', ''title'', ''hovermode'', ''showlegend'', ''margin'']"
  by (simp add: model_defs example_defs dict_keys_def)

text \<open>
  Claim C2, for the calls that return. The frames are named by the time values in the
  order of their first appearance in the time column, one frame for each distinct value.
\<close>

theorem frames_per_time_value:
  assumes "bubbleplot L dataset a = Inr fig"
    and "given (p_time_column a) = Some tc" and "get_col dataset tc = Inr c"
  shows "map frame_name (fig_frames fig) = map (py_str L) (unique (cells c))
       \<and> length (fig_frames fig) = card (set (cells c))
       \<and> distinct (unique (cells c)) \<and> set (unique (cells c)) = set (cells c)"
proof -
  from assms(1) obtain category_column color_column
    where cc: "classify_color dataset (p_color_column a) = Inr (category_column, color_column)"
    by (rule bubbleplot_InrE)
  from bubbleplot_traces [OF assms(1) cc] assms(2,3)
  have names: "map frame_name (fig_frames fig) = map (py_str L) (unique (cells c))"
    by auto
  then have "length (fig_frames fig) = length (unique (cells c))"
    by (metis length_map)
  then show ?thesis
    using names by (simp add: unique_length unique_distinct unique_set)
qed

text \<open>The example of the specification: the frames are \<open>2000\<close> and \<open>2001\<close>.\<close>

theorem frames_per_time_value_witness:
  "\<exists>fig. bubbleplot example_lib example_dataset
            ((default_args ''gdp'' ''pop'' ''country'')\<lparr>p_time_column := Some ''year''\<rparr>) = Inr fig
        \<and> map frame_name (fig_frames fig) = [''2000'', ''2001'']"
proof -
  let ?a = "(default_args ''gdp'' ''pop'' ''country'')\<lparr>p_time_column := Some ''year''\<rparr>"
  have "\<exists>fig. bubbleplot example_lib example_dataset ?a = Inr fig"
    by (simp add: model_defs example_defs str_nat.simps)
  then obtain fig where f: "bubbleplot example_lib example_dataset ?a = Inr fig" ..
  have t: "given (p_time_column ?a) = Some ''year''" by (simp add: default_args_def)
  have c: "get_col example_dataset ''year'' = Inr (IntCol [2000, 2000, 2001])"
    by (simp add: get_col_def example_defs)
  have u: "map (py_str example_lib) (unique (cells (IntCol [2000, 2000, 2001])))
             = [''2000'', ''2001'']"
    by (simp add: unique_def str_int_def str_nat.simps)
  show ?thesis
    using frames_per_time_value [OF f t c] f unfolding u
    by (intro exI [of _ fig]) simp
qed

text \<open>
  A call with a time column does not always return. The rows of a time value are selected
  by equality with \<open>int(year)\<close>: for the time value 1.5 no row equals 1, the grid stays
  empty and the lookup of the first trace raises KeyError.
\<close>

theorem frames_per_time_value_counterexample:
  "bubbleplot example_lib
     [(''t'', FloatCol [Fin (3 / 2)]), (''x'', IntCol [1]), (''y'', IntCol [2]),
      (''label'', ObjCol [''a''])]
     ((default_args ''x'' ''y'' ''label'')\<lparr>p_time_column := Some ''t''\<rparr>)
   = Inl KeyError"
  by (simp add: model_defs example_defs)

text \<open>
  Claim C3, for the calls that return. With a color column of dtype \<open>category\<close>,
  \<open>object\<close> or \<open>bool\<close>, the base data and every frame have one trace for each distinct
  value of that column.
\<close>

theorem traces_per_category:
  assumes "bubbleplot L dataset a = Inr fig"
    and "given (p_color_column a) = Some cc" and "get_col dataset cc = Inr c"
    and "dtype_name c \<in> set [''category'', ''object'', ''bool'']"
  shows "length (fig_data fig) = card (set (cells c))
       \<and> (\<forall>fr\<in>set (fig_frames fig). length (frame_data fr) = card (set (cells c)))"
proof -
  have cl: "classify_color dataset (p_color_column a) = Inr (Some cc, None)"
    using assms(2,3,4) by (simp add: classify_color_def)
  from bubbleplot_traces [OF assms(1) cl] assms(3)
  show ?thesis by (auto simp: unique_length)
qed

text \<open>Two countries, each with a row in each year: two traces everywhere.\<close>

theorem traces_per_category_witness:
  "\<exists>fig. bubbleplot example_lib full_dataset
            ((default_args ''gdp'' ''pop'' ''country'')
               \<lparr>p_time_column := Some ''year'', p_color_column := Some ''country''\<rparr>) = Inr fig
        \<and> length (fig_data fig) = 2
        \<and> (\<forall>fr\<in>set (fig_frames fig). length (frame_data fr) = 2)"
proof -
  let ?a = "(default_args ''gdp'' ''pop'' ''country'')
               \<lparr>p_time_column := Some ''year'', p_color_column := Some ''country''\<rparr>"
  have "\<exists>fig. bubbleplot example_lib full_dataset ?a = Inr fig"
    by (simp add: model_defs example_defs str_nat.simps)
  then obtain fig where f: "bubbleplot example_lib full_dataset ?a = Inr fig" ..
  have g: "given (p_color_column ?a) = Some ''country''" by (simp add: default_args_def)
  have c: "get_col full_dataset ''country'' = Inr (ObjCol [''A'', ''B'', ''A'', ''B''])"
    by (simp add: get_col_def example_defs)
  have d: "dtype_name (ObjCol [''A'', ''B'', ''A'', ''B'']) \<in> set [''category'', ''object'', ''bool'']"
    by simp
  have "set (cells (ObjCol [''A'', ''B'', ''A'', ''B''])) = {StrC ''A'', StrC ''B''}"
    by auto
  then have "card (set (cells (ObjCol [''A'', ''B'', ''A'', ''B'']))) = 2" by simp
  then show ?thesis
    using traces_per_category [OF f g c d] f by simp
qed

text \<open>
  In the example of the specification country B has no row in 2001: the grid has no entry
  for that pair and the lookup raises IndexError, so no figure is returned.
\<close>

theorem traces_per_category_counterexample:
  "bubbleplot example_lib example_dataset
     ((default_args ''gdp'' ''pop'' ''country'')
        \<lparr>p_time_column := Some ''year'', p_color_column := Some ''country''\<rparr>)
   = Inl IndexError"
  by (simp add: model_defs example_defs str_nat.simps)

text \<open>
  Claim C4. A color column whose dtype is \<open>category\<close>, \<open>object\<close> or \<open>bool\<close> becomes the
  category column and is no color column any more; a category column and a color column
  are never both in use, and no trace of a figure returned for such a call has a marker
  color.
\<close>

theorem color_reclassified:
  assumes "given (p_color_column a) = Some c" and "get_col dataset c = Inr col"
    and "dtype_name col \<in> set [''category'', ''object'', ''bool'']"
  shows "classify_color dataset (p_color_column a) = Inr (Some c, None)
       \<and> (\<forall>cc cat col'. classify_color dataset cc = Inr (cat, col') \<longrightarrow>
             given cat = None \<or> given col' = None)
       \<and> (\<forall>L fig. bubbleplot L dataset a = Inr fig \<longrightarrow>
             (\<forall>tr\<in>set (all_traces fig). \<exists>m. trace_marker tr = Some m
                \<and> map_of m ''color'' = None))"
proof (intro conjI allI impI ballI)
  show cl: "classify_color dataset (p_color_column a) = Inr (Some c, None)"
    using assms by (simp add: classify_color_def)
  show "given cat = None \<or> given col' = None"
    if "classify_color dataset cc = Inr (cat, col')" for cc cat col'
    using classify_color_Inr [OF that] by auto
  show "\<exists>m. trace_marker tr = Some m \<and> map_of m ''color'' = None"
    if "bubbleplot L dataset a = Inr fig" and "tr \<in> set (all_traces fig)" for L fig tr
    using bubbleplot_markers [OF that(1) cl that(2)] by auto
qed

text \<open>The text column \<open>country\<close> as color column.\<close>

theorem color_reclassified_witness:
  "classify_color example_dataset (Some ''country'') = Inr (Some ''country'', None)
   \<and> (\<exists>fig. bubbleplot example_lib example_dataset
               ((default_args ''gdp'' ''pop'' ''country'')\<lparr>p_color_column := Some ''country''\<rparr>)
             = Inr fig
           \<and> (\<forall>tr\<in>set (all_traces fig). \<exists>m. trace_marker tr = Some m
                \<and> map_of m ''color'' = None))"
proof -
  let ?a = "(default_args ''gdp'' ''pop'' ''country'')\<lparr>p_color_column := Some ''country''\<rparr>"
  have "\<exists>fig. bubbleplot example_lib example_dataset ?a = Inr fig"
    by (simp add: model_defs example_defs)
  then obtain fig where f: "bubbleplot example_lib example_dataset ?a = Inr fig" ..
  have g: "given (p_color_column ?a) = Some ''country''" by (simp add: default_args_def)
  have c: "get_col example_dataset ''country'' = Inr (ObjCol [''A'', ''B'', ''A''])"
    by (simp add: get_col_def example_defs)
  have d: "dtype_name (ObjCol [''A'', ''B'', ''A'']) \<in> set [''category'', ''object'', ''bool'']"
    by simp
  have p: "p_color_column ?a = Some ''country''" by (simp add: default_args_def)
  show ?thesis
    using color_reclassified [OF g c d] f unfolding p
    by (intro conjI exI [of _ fig]) simp_all
qed

text \<open>
  Claim C5. With a size column of finite numbers the size reference is
  \<open>2 * max(size_values) / (scale_bubble * 80^2)\<close> in float arithmetic (the two products
  and the quotient are each rounded to a float), a divisor of zero raises
  ZeroDivisionError, and every trace of a returned figure carries the size reference in
  its marker.
\<close>

theorem sizeref_formula:
  assumes "given (p_size_column a) = Some sc" and "get_col dataset sc = Inr c"
    and "numbers c = Some (map Fin rs)" and "rs \<noteq> []"
  shows "bubble_sizeref dataset (p_size_column a) (p_scale_bubble a)
           = (if np_mul (Fin (p_scale_bubble a)) (80 ^ 2) = Fin 0 then Inl ZeroDivisionError
              else Inr (Some (np_div (np_mul (py_float (Fin (Max (set rs)))) 2)
                                (np_mul (Fin (p_scale_bubble a)) (80 ^ 2)))))
       \<and> (\<forall>L fig. bubbleplot L dataset a = Inr fig \<longrightarrow>
             (\<forall>tr\<in>set (all_traces fig). \<exists>m. trace_marker tr = Some m
                \<and> map_of m ''sizemode'' = Some (str_val ''area'')
                \<and> map_of m ''sizeref''
                    = Some (Sc (FloatC (np_div (np_mul (py_float (Fin (Max (set rs)))) 2)
                                          (np_mul (Fin (p_scale_bubble a)) (80 ^ 2)))))))"
proof (intro conjI allI impI ballI)
  let ?d = "np_mul (Fin (p_scale_bubble a)) (80 ^ 2)"
  let ?r = "np_div (np_mul (py_float (Fin (Max (set rs)))) 2) ?d"
  show sr: "bubble_sizeref dataset (p_size_column a) (p_scale_bubble a)
           = (if ?d = Fin 0 then Inl ZeroDivisionError else Inr (Some ?r))"
    using assms by (rule bubble_sizeref_value)
  show "\<exists>m. trace_marker tr = Some m
                \<and> map_of m ''sizemode'' = Some (str_val ''area'')
                \<and> map_of m ''sizeref'' = Some (Sc (FloatC ?r))"
    if b: "bubbleplot L dataset a = Inr fig" and tr: "tr \<in> set (all_traces fig)" for L fig tr
  proof -
    from b obtain category_column color_column
      where cl: "classify_color dataset (p_color_column a) = Inr (category_column, color_column)"
      by (rule bubbleplot_InrE)
    from bubbleplot_markers [OF b cl tr] obtain m sizeref where
      m: "trace_marker tr = Some m"
        "bubble_sizeref dataset (p_size_column a) (p_scale_bubble a) = Inr sizeref"
        "given (p_size_column a) \<noteq> None \<longrightarrow>
          map_of m ''sizeref'' = Some (case sizeref of None \<Rightarrow> Null | Some r \<Rightarrow> Sc (FloatC r))
          \<and> map_of m ''sizemode'' = Some (str_val ''area'')"
      by auto
    have "sizeref = Some ?r"
      using m(2) unfolding sr by (simp split: if_splits)
    then show ?thesis using m assms(1) by simp
  qed
qed

text \<open>
  The sizes 10, 20 and 40 with the scale 1 give the float of the literal \<open>0.0125\<close>.
\<close>

theorem sizeref_formula_witness:
  "bubble_sizeref (example_dataset @ [(''size'', IntCol [10, 20, 40])]) (Some ''size'') 1
     = Inr (Some (round_double (125 / 10000)))
   \<and> (\<exists>fig. bubbleplot example_lib (example_dataset @ [(''size'', IntCol [10, 20, 40])])
               ((default_args ''gdp'' ''pop'' ''country'')\<lparr>p_size_column := Some ''size''\<rparr>)
             = Inr fig
           \<and> (\<forall>tr\<in>set (all_traces fig). \<exists>m. trace_marker tr = Some m
                \<and> map_of m ''sizeref'' = Some (Sc (FloatC (round_double (125 / 10000))))))"
proof -
  let ?d = "example_dataset @ [(''size'', IntCol [10, 20, 40])]"
  let ?a = "(default_args ''gdp'' ''pop'' ''country'')\<lparr>p_size_column := Some ''size''\<rparr>"
  have "\<exists>fig. bubbleplot example_lib ?d ?a = Inr fig"
    by (simp add: model_defs example_defs)
  then obtain fig where f: "bubbleplot example_lib ?d ?a = Inr fig" ..
  have g: "given (p_size_column ?a) = Some ''size''" by (simp add: default_args_def)
  have c: "get_col ?d ''size'' = Inr (IntCol [10, 20, 40])"
    by (simp add: get_col_def example_defs)
  have n: "numbers (IntCol [10, 20, 40]) = Some (map Fin [10, 20, 40])" by simp
  have ne: "[10, 20, 40::real] \<noteq> []" by simp
  have p: "p_size_column ?a = Some ''size''" "p_scale_bubble ?a = 1"
    by (simp_all add: default_args_def)
  have v: "np_mul (Fin 1) (80 ^ 2) = Fin 6400"
    "np_div (np_mul (py_float (Fin (Max (set [10, 20, 40])))) 2) (Fin 6400)
       = round_double (125 / 10000)"
    by (simp_all add: rounding_examples)
  note th = sizeref_formula [OF g c n ne, unfolded p v]
  have "\<exists>m. trace_marker tr = Some m
          \<and> map_of m ''sizeref'' = Some (Sc (FloatC (round_double (125 / 10000))))"
    if "tr \<in> set (all_traces fig)" for tr
    using th [THEN conjunct2, rule_format, OF f that] by auto
  then show ?thesis
    using th [THEN conjunct1] f by (intro conjI exI [of _ fig]) simp_all
qed

text \<open>
  Claim C8. Without a time, size or color column (so without a category column), on a
  dataset that has the columns named and from which the ranges of the axes can be
  computed, \<open>bubbleplot\<close> returns a figure with exactly one trace in its data, no frame,
  and neither \<open>sliders\<close> nor \<open>updatemenus\<close> in its layout, whatever the flags
  \<open>show_slider\<close> and \<open>show_button\<close> are.
\<close>

theorem plain_figure:
  assumes "given (p_time_column a) = None" and "given (p_color_column a) = None"
    and "given (p_size_column a) = None"
    and "plottable dataset (p_x_range a) (p_x_column a)"
    and "plottable dataset (p_y_range a) (p_y_column a)"
    and "map_of dataset (p_bubble_column a) \<noteq> None"
    and "\<forall>zc. given (p_z_column a) = Some zc \<longrightarrow> plottable dataset (p_z_range a) zc"
  shows "\<exists>fig. bubbleplot L dataset a = Inr fig
           \<and> length (fig_data fig) = 1 \<and> fig_frames fig = []
           \<and> ''sliders'' \<notin> set (dict_keys (fig_layout fig))
           \<and> ''updatemenus'' \<notin> set (dict_keys (fig_layout fig))"
proof -
  have cols: "\<forall>n\<in>set (needed_columns (p_x_column a) (p_y_column a) (p_bubble_column a)
                          (p_z_column a) (p_size_column a) (p_color_column a)).
                 \<exists>c. get_col dataset n = Inr c"
  proof
    fix n
    assume "n \<in> set (needed_columns (p_x_column a) (p_y_column a) (p_bubble_column a)
                          (p_z_column a) (p_size_column a) (p_color_column a))"
    then have "n = p_x_column a \<or> n = p_y_column a \<or> n = p_bubble_column a
        \<or> given (p_z_column a) = Some n"
      using assms(2,3) by (auto simp: needed_columns_def split: option.splits)
    then have "map_of dataset n \<noteq> None"
      using assms(4,5,6,7) by (auto simp: plottable_def split: option.splits)
    then show "\<exists>c. get_col dataset n = Inr c"
      by (auto simp: get_col_def)
  qed
  have z: "given (p_z_column a) \<noteq> None \<longrightarrow>
              (\<exists>r. axis_range dataset (p_z_range a) (the_default [] (p_z_column a))
                      (p_z_logscale a) = Inr r)"
  proof
    assume "given (p_z_column a) \<noteq> None"
    then obtain zc where zc: "given (p_z_column a) = Some zc" by auto
    then have "the_default [] (p_z_column a) = zc" by (simp add: given_Some)
    then show "\<exists>r. axis_range dataset (p_z_range a) (the_default [] (p_z_column a))
                      (p_z_logscale a) = Inr r"
      using plottable_range assms(7) zc by auto
  qed
  obtain fig where fig: "bubbleplot L dataset a = Inr fig"
    using bubbleplot_total_plain [OF assms(1,2,3) cols
        plottable_range [OF assms(4)] plottable_range [OF assms(5)] z]
    by blast
  have cl: "classify_color dataset (p_color_column a) = Inr (None, p_color_column a)"
    using assms(2) by (simp add: classify_color_def)
  have "length (fig_data fig) = 1" "fig_frames fig = []"
    using bubbleplot_traces [OF fig cl] assms(1) by auto
  moreover have "''sliders'' \<notin> set (dict_keys (fig_layout fig))"
    "''updatemenus'' \<notin> set (dict_keys (fig_layout fig))"
    using bubbleplot_layout(4,5) [OF fig cl] assms(1) by (simp_all add: dict_key_iff)
  ultimately show ?thesis using fig by blast
qed

text \<open>The example dataset with the default arguments, which ask for slider and buttons.\<close>

theorem plain_figure_witness:
  "\<exists>fig. bubbleplot example_lib example_dataset (default_args ''gdp'' ''pop'' ''country'') = Inr fig
        \<and> length (fig_data fig) = 1 \<and> fig_frames fig = []
        \<and> ''sliders'' \<notin> set (dict_keys (fig_layout fig))
        \<and> ''updatemenus'' \<notin> set (dict_keys (fig_layout fig))"
proof -
  let ?a = "default_args ''gdp'' ''pop'' ''country''"
  have 1: "given (p_time_column ?a) = None" "given (p_color_column ?a) = None"
    "given (p_size_column ?a) = None"
    by (simp_all add: default_args_def)
  have 2: "plottable example_dataset (p_x_range ?a) (p_x_column ?a)"
    "plottable example_dataset (p_y_range ?a) (p_y_column ?a)"
    by (simp_all add: default_args_def plottable_def example_dataset_def)
  have 3: "map_of example_dataset (p_bubble_column ?a) \<noteq> None"
    by (simp add: default_args_def example_dataset_def)
  have 4: "\<forall>zc. given (p_z_column ?a) = Some zc \<longrightarrow> plottable example_dataset (p_z_range ?a) zc"
    by (simp add: default_args_def)
  show ?thesis
    by (rule plain_figure [OF 1 2 3 4])
qed

section \<open>The grid\<close>

text \<open>
  Claim C1, as the code has it. On a rectangular dataset the grid built by \<open>makeGrid\<close> or
  \<open>makeGridWithCategories\<close> is, in the order of the loops (time values, then categories,
  then column names), the list of one entry for each listed combination whose rows are
  not empty: the composite key, and the values of the column over the rows that match the
  time value and the category, in row order. So with a time or a category column no entry
  has an empty value list. Without both, each listed column has its entry, whatever the
  number of rows. The number of entries under a key is the number of listed combinations
  that compose to it.
\<close>

theorem grid_contents:
  assumes "rectangular dataset"
  shows "(makeGrid L dataset column_names time_column years = Inr g \<longrightarrow>
            (given time_column = None \<longrightarrow>
               g = map (\<lambda>col_name. (col_name @ ''_grid'', col_cells dataset col_name))
                     column_names)
          \<and> (\<forall>tc. given time_column = Some tc \<longrightarrow>
               g = concat (map (\<lambda>year.
                       spec_entries dataset (key2 (py_str L year)) (time_is L tc year)
                         column_names)
                     (case years of None \<Rightarrow> unique (col_cells dataset tc) | Some ys \<Rightarrow> ys))
               \<and> (\<forall>(k, vs)\<in>set g. vs \<noteq> [])))
       \<and> (makeGridWithCategories L dataset column_names time_column cc years categories = Inr g'
            \<longrightarrow>
            (given time_column = None \<longrightarrow>
               g' = concat (map (\<lambda>category.
                       spec_entries dataset (\<lambda>col_name. key2 col_name (py_str L category))
                         (category_is cc category) column_names)
                     (case categories of None \<Rightarrow> unique (col_cells dataset cc)
                      | Some cs \<Rightarrow> cs)))
          \<and> (\<forall>tc. given time_column = Some tc \<longrightarrow>
               g' = concat (map (\<lambda>year. concat (map (\<lambda>category.
                       spec_entries dataset
                         (\<lambda>col_name. key3 (py_str L year) col_name (py_str L category))
                         (\<lambda>row. time_is L tc year row \<and> category_is cc category row)
                         column_names)
                       (case categories of None \<Rightarrow> unique (col_cells dataset cc)
                        | Some cs \<Rightarrow> cs)))
                     (case years of None \<Rightarrow> unique (col_cells dataset tc) | Some ys \<Rightarrow> ys)))
          \<and> (\<forall>(k, vs)\<in>set g'. vs \<noteq> []))"
proof (intro conjI impI allI)
  assume m: "makeGrid L dataset column_names time_column years = Inr g"
  show "g = map (\<lambda>col_name. (col_name @ ''_grid'', col_cells dataset col_name)) column_names"
    if "given time_column = None"
    using m that by (rule makeGrid_plain_spec)
  show "g = concat (map (\<lambda>year.
                       spec_entries dataset (key2 (py_str L year)) (time_is L tc year)
                         column_names)
                     (case years of None \<Rightarrow> unique (col_cells dataset tc) | Some ys \<Rightarrow> ys))"
    if "given time_column = Some tc" for tc
    using m that assms by (rule makeGrid_time_spec)
  show "\<forall>(k, vs)\<in>set g. vs \<noteq> []" if "given time_column = Some tc" for tc
    unfolding makeGrid_time_spec [OF m that assms]
    by (auto dest: spec_entries_nonempty)
next
  assume m: "makeGridWithCategories L dataset column_names time_column cc years categories = Inr g'"
  note s = makeGridWithCategories_spec [OF m assms]
  show "g' = concat (map (\<lambda>category.
                       spec_entries dataset (\<lambda>col_name. key2 col_name (py_str L category))
                         (category_is cc category) column_names)
                     (case categories of None \<Rightarrow> unique (col_cells dataset cc)
                      | Some cs \<Rightarrow> cs))"
    if "given time_column = None"
    using s(1) that by simp
  show "g' = concat (map (\<lambda>year. concat (map (\<lambda>category.
                       spec_entries dataset
                         (\<lambda>col_name. key3 (py_str L year) col_name (py_str L category))
                         (\<lambda>row. time_is L tc year row \<and> category_is cc category row)
                         column_names)
                       (case categories of None \<Rightarrow> unique (col_cells dataset cc)
                        | Some cs \<Rightarrow> cs)))
                     (case years of None \<Rightarrow> unique (col_cells dataset tc) | Some ys \<Rightarrow> ys))"
    if "given time_column = Some tc" for tc
    using s(2) that by simp
  show "\<forall>(k, vs)\<in>set g'. vs \<noteq> []"
  proof (cases "given time_column")
    case None
    show ?thesis
      using s(1) None by (auto dest: spec_entries_nonempty)
  next
    case (Some tc)
    show ?thesis
      using s(2) Some by (auto dest: spec_entries_nonempty)
  qed
qed

text \<open>
  A column name listed twice (as when the same column is the x axis and the size) has two
  entries under one key, and without time and category columns an empty dataset has
  entries although no row is selected.
\<close>

theorem grid_contents_counterexample:
  "makeGrid example_lib [(''a'', IntCol [1])] [''a'', ''a''] None None
     = Inr [(''a_grid'', [IntC 1]), (''a_grid'', [IntC 1])]
   \<and> makeGrid example_lib [(''a'', IntCol [])] [''a''] None None = Inr [(''a_grid'', [])]"
  by (simp add: makeGrid_def get_col_def)

text \<open>The example of the specification, by year and country, and by year alone.\<close>

theorem grid_contents_witness:
  "rectangular example_dataset
   \<and> makeGridWithCategories example_lib example_dataset [''gdp''] (Some ''year'') ''country''
       None None
     = Inr [(''2000+gdp+A_grid'', [IntC 1]), (''2000+gdp+B_grid'', [IntC 2]),
            (''2001+gdp+A_grid'', [IntC 3])]
   \<and> [(''2000+gdp+A_grid'', [IntC 1]), (''2000+gdp+B_grid'', [IntC 2]),
       (''2001+gdp+A_grid'', [IntC 3])]
     = concat (map (\<lambda>year. concat (map (\<lambda>category.
           spec_entries example_dataset
             (\<lambda>col_name. key3 (py_str example_lib year) col_name (py_str example_lib category))
             (\<lambda>row. time_is example_lib ''year'' year row \<and> category_is ''country'' category row)
             [''gdp''])
           (unique (col_cells example_dataset ''country''))))
         (unique (col_cells example_dataset ''year'')))
   \<and> makeGrid example_lib example_dataset [''gdp''] (Some ''year'') None
     = Inr [(''2000+gdp_grid'', [IntC 1, IntC 2]), (''2001+gdp_grid'', [IntC 3])]"
proof -
  have r: "rectangular example_dataset"
    by (simp add: rectangular_def nrows_def example_dataset_def)
  have m: "makeGridWithCategories example_lib example_dataset [''gdp''] (Some ''year'') ''country''
       None None
     = Inr [(''2000+gdp+A_grid'', [IntC 1]), (''2000+gdp+B_grid'', [IntC 2]),
            (''2001+gdp+A_grid'', [IntC 3])]"
    by (simp add: model_defs example_defs str_nat.simps)
  have p: "makeGrid example_lib example_dataset [''gdp''] (Some ''year'') None
     = Inr [(''2000+gdp_grid'', [IntC 1, IntC 2]), (''2001+gdp_grid'', [IntC 3])]"
    by (simp add: model_defs example_defs str_nat.simps)
  note t = grid_contents [OF r, of example_lib "[''gdp'']" "Some ''year''" None _
      "''country''" None
      "[(''2000+gdp+A_grid'', [IntC 1]), (''2000+gdp+B_grid'', [IntC 2]),
        (''2001+gdp+A_grid'', [IntC 3])]"]
  have "[(''2000+gdp+A_grid'', [IntC 1]), (''2000+gdp+B_grid'', [IntC 2]),
       (''2001+gdp+A_grid'', [IntC 3])]
     = concat (map (\<lambda>year. concat (map (\<lambda>category.
           spec_entries example_dataset
             (\<lambda>col_name. key3 (py_str example_lib year) col_name (py_str example_lib category))
             (\<lambda>row. time_is example_lib ''year'' year row \<and> category_is ''country'' category row)
             [''gdp''])
           (unique (col_cells example_dataset ''country''))))
         (unique (col_cells example_dataset ''year'')))"
    using t [THEN conjunct2, THEN mp, OF m, THEN conjunct2, THEN conjunct1, rule_format,
        of "''year''"]
    by simp
  then show ?thesis using r m p by blast
qed

end
